theory Spec2Isabelle
  imports Complex_Main
begin

section \<open>Python values used by the analyzers\<close>

text \<open>
  Python floats are modelled as real numbers and Python integers as \<open>int\<close>: the
  statements below are about exact arithmetic, except for the inventory in months, where
  the rounding of doubles decides the result and is written out (\<open>fl\<close> below).
  A nullable column is an \<open>option\<close>.  A \<open>datetime\<close> is a count of microseconds,
  \<open>timedelta(days=n)\<close> is \<open>days n\<close>.
\<close>

text \<open>The exceptions that the modelled code can raise.\<close>

datatype py_error =
    ZeroDivisionError | AttributeError | TypeError | InvalidRequestError
  | OSError | UnicodeDecodeError

type_synonym datetime = int

definition days :: "int \<Rightarrow> int" where
  "days n = n * 86400000000"

text \<open>Truthiness of an optional number: \<open>None\<close> and \<open>0\<close> are both false.\<close>

definition truthy :: "'a::zero option \<Rightarrow> bool" where
  "truthy v = (case v of None \<Rightarrow> False | Some x \<Rightarrow> x \<noteq> 0)"

text \<open>\<open>a or b\<close> on optional numbers: the first operand when it is truthy, else the second.\<close>

definition py_or :: "'a::zero option \<Rightarrow> 'a option \<Rightarrow> 'a option" where
  "py_or a b = (if truthy a then a else b)"

text \<open>\<open>round(x)\<close>: to the nearest integer, a tie going to the even neighbour.\<close>

definition py_round :: "real \<Rightarrow> int" where
  "py_round x =
     (let f = \<lfloor>x\<rfloor>; d = x - of_int f
      in if d < 1 / 2 then f
         else if 1 / 2 < d then f + 1
         else if even f then f else f + 1)"

text \<open>
  The double nearest to a real number, a tie going to the even mantissa: the result of
  every arithmetic operation on doubles, and of the conversion of an integer, in the
  normal range (magnitudes from \<open>2^-1022\<close> to below \<open>2^1024\<close>).  The mantissa of a
  number between \<open>2^k\<close> and \<open>2^(k+1)\<close> counts units of \<open>2^(k-52)\<close>.
\<close>

definition fl :: "real \<Rightarrow> real" where
  "fl x =
     (if x = 0 then 0
      else
        let e = \<lfloor>log 2 \<bar>x\<bar>\<rfloor> - 52
        in real_of_int (py_round (x / 2 powr real_of_int e)) * 2 powr real_of_int e)"

text \<open>
  \<open>round(x, n)\<close> of a double \<open>x\<close>: its exact value is rounded at the \<open>n\<close>-th decimal,
  a tie going to the even digit, and the result is the double nearest to that decimal.
\<close>

definition round_ndigits :: "real \<Rightarrow> nat \<Rightarrow> real" where
  "round_ndigits x n = fl (real_of_int (py_round (x * 10 ^ n)) / 10 ^ n)"

text \<open>
  \<open>numpy.mean\<close> and \<open>numpy.median\<close>; the sources call them on non-empty lists only
  (each call is behind a length test).
\<close>

definition np_mean :: "real list \<Rightarrow> real" where
  "np_mean xs = sum_list xs / real (length xs)"

definition np_median :: "real list \<Rightarrow> real" where
  "np_median xs =
     (let s = sort xs; n = length s
      in if odd n then s ! (n div 2)
         else (s ! (n div 2 - 1) + s ! (n div 2)) / 2)"

text \<open>\<open>min\<close> and \<open>max\<close> of a list; Python raises on an empty one, which is \<open>None\<close> here.\<close>

fun py_min :: "'a::linorder list \<Rightarrow> 'a option" where
  "py_min [] = None"
| "py_min (x # xs) = Some (fold min xs x)"

fun py_max :: "'a::linorder list \<Rightarrow> 'a option" where
  "py_max [] = None"
| "py_max (x # xs) = Some (fold max xs x)"

section \<open>Data model\<close>

text \<open>
  The rows of \<open>data/database.py\<close>.  \<open>Property\<close> and \<open>StreetAnalysis\<close> carry the columns
  the analyzers read; \<open>Property.id\<close> and \<open>Property.zip\<close> are \<open>prop_id\<close> and \<open>zip_code\<close>,
  and the columns of the analysis tables carry a prefix, since a field name is a constant
  of the theory.  \<open>MarketHeatZone\<close> has every column that \<open>database.py\<close> declares, under
  the declared name.
\<close>

record Property =
  prop_id :: int
  street_name :: string
  city :: string
  zip_code :: string
  latitude :: "real option"
  longitude :: "real option"
  sale_price :: "real option"
  list_price :: "real option"
  sqft :: "real option"
  price_per_sqft :: "real option"
  lot_size :: "real option"
  status :: string
  sale_date :: "datetime option"
  days_on_market :: "int option"
  archived :: bool

record StreetAnalysis =
  sa_street_name :: string
  sa_city :: string
  sa_median_price_sqft :: real
  sa_min_price_sqft :: real
  sa_max_price_sqft :: real
  sa_avg_dom :: "real option"
  sa_min_dom :: "int option"
  sa_max_dom :: "int option"
  sa_color :: string
  sa_sample_size :: int
  sa_confidence_score :: real
  sa_last_updated :: datetime

record MarketHeatZone =
  mh_id :: int
  mh_zip_code :: string
  mh_active_listings :: int
  mh_sold_last_90d :: int
  mh_inventory_months :: real
  mh_price_change_90d :: "real option"
  mh_dom_change :: "real option"
  mh_status :: string
  mh_recommendation :: "string option"
  mh_last_updated :: "datetime option"

text \<open>A Python value as an attribute of a row can hold it.\<close>

datatype pyval = PyNone | PyBool bool | PyInt int | PyFloat real | PyStr string | PyDateTime datetime

definition py_opt :: "('a \<Rightarrow> pyval) \<Rightarrow> 'a option \<Rightarrow> pyval" where
  "py_opt f v = (case v of None \<Rightarrow> PyNone | Some x \<Rightarrow> f x)"

text \<open>
  Reading an attribute of a \<open>MarketHeatZone\<close> row that a query has loaded: the value of
  the column when \<open>database.py\<close> declares one of that name, \<open>AttributeError\<close> otherwise.
\<close>

definition MarketHeatZone_getattr :: "MarketHeatZone \<Rightarrow> string \<Rightarrow> py_error + pyval" where
  "MarketHeatZone_getattr row name =
     (if name = ''id'' then Inr (PyInt (mh_id row))
      else if name = ''zip_code'' then Inr (PyStr (mh_zip_code row))
      else if name = ''active_listings'' then Inr (PyInt (mh_active_listings row))
      else if name = ''sold_last_90d'' then Inr (PyInt (mh_sold_last_90d row))
      else if name = ''inventory_months'' then Inr (PyFloat (mh_inventory_months row))
      else if name = ''price_change_90d'' then Inr (py_opt PyFloat (mh_price_change_90d row))
      else if name = ''dom_change'' then Inr (py_opt PyFloat (mh_dom_change row))
      else if name = ''status'' then Inr (PyStr (mh_status row))
      else if name = ''recommendation'' then Inr (py_opt PyStr (mh_recommendation row))
      else if name = ''last_updated'' then Inr (py_opt PyDateTime (mh_last_updated row))
      else Inl AttributeError)"

text \<open>
  A \<open>LandOpportunity\<close> object is the list of its attributes, in the order they were set.
  The class is given by the columns that \<open>database.py\<close> declares for it.
\<close>

type_synonym orm_row = "(string \<times> pyval) list"

definition LandOpportunity_columns :: "string list" where
  "LandOpportunity_columns =
     [''id'', ''email_id'', ''received_at'', ''address'', ''latitude'', ''longitude'', ''price'',
      ''lot_size'', ''zoning'', ''mls_number'', ''url'', ''has_well'', ''has_septic'',
      ''zone_color'', ''nearby_avg_price_sqft'', ''nearby_sales_count'', ''nearby_avg_dom'',
      ''market_status'', ''filter_passed'', ''filter_reasons'', ''urgency_level'',
      ''urgency_score'', ''telegram_sent'', ''telegram_sent_at'', ''created_at'']"

text \<open>
  The constructor that \<open>declarative_base\<close> gives a class: it goes through the keyword
  arguments in order and raises \<open>TypeError\<close> at the first that is not an attribute of the
  class; otherwise the object has the attributes given.  The attributes of the class are
  its columns here: what else a declarative class has (its table, its metadata) is not
  among the names the analyzers use.
\<close>

definition declarative_constructor :: "string list \<Rightarrow> (string \<times> pyval) list \<Rightarrow> py_error + orm_row" where
  "declarative_constructor columns kwargs =
     (if list_all (\<lambda>kv. fst kv \<in> set columns) kwargs then Inr kwargs else Inl TypeError)"

text \<open>
  \<open>session.query(cls).filter_by(key=v).first()\<close>: \<open>InvalidRequestError\<close> when the class has
  no attribute \<open>key\<close>, else the first stored row whose attribute has the value.
\<close>

definition filter_by_first ::
  "string list \<Rightarrow> string \<Rightarrow> pyval \<Rightarrow> orm_row list \<Rightarrow> py_error + orm_row option" where
  "filter_by_first columns key v rows =
     (if key \<in> set columns then Inr (find (\<lambda>r. map_of r key = Some v) rows)
      else Inl InvalidRequestError)"

text \<open>\<open>obj.name = v\<close>: the attribute is replaced where it stands, or added at the end.\<close>

fun setattr :: "string \<Rightarrow> pyval \<Rightarrow> orm_row \<Rightarrow> orm_row" where
  "setattr name v [] = [(name, v)]"
| "setattr name v (kv # row) =
     (if fst kv = name then (name, v) # row else kv # setattr name v row)"

text \<open>The database: one list of rows per table, in storage order.\<close>

record repo =
  properties :: "Property list"
  street_analysis :: "StreetAnalysis list"
  market_heat_zones :: "MarketHeatZone list"
  land_opportunities :: "orm_row list"

text \<open>
  \<open>config.py\<close> is not part of the sources at hand, so its values are a parameter:
  one field per key that the analyzers look up.
\<close>

record config =
  COLOR_THRESHOLDS_green :: real
  COLOR_THRESHOLDS_light_green :: real
  COLOR_THRESHOLDS_yellow :: real
  LAND_FILTER_max_price :: real
  LAND_FILTER_min_lot_size :: real
  LAND_FILTER_allowed_zone_colors :: "string list"
  LAND_FILTER_market_heat_allowed :: "string list"
  LAND_FILTER_min_nearby_price_sqft :: real
  LAND_FILTER_min_recent_sales :: int
  URGENCY_SCORING_zone_color :: real
  URGENCY_SCORING_market_heat :: real
  URGENCY_SCORING_price_opportunity :: real
  URGENCY_SCORING_recent_sales :: real
  URGENCY_LEVELS_urgent :: real
  URGENCY_LEVELS_good :: real
  CITY_CENTER_lat :: real
  CITY_CENTER_lon :: real
  RADIUS_MILES :: real

section \<open>ASCII text\<close>

text \<open>
  Addresses are modelled as ASCII strings; the character classes are those of
  \<open>str.isspace\<close>, \<open>str.title\<close> and of the patterns \<open>\s\<close>, \<open>\d\<close>, \<open>\w\<close> on ASCII.
\<close>

definition is_space :: "char \<Rightarrow> bool" where
  "is_space c = (let n = (of_char c :: nat) in (9 \<le> n \<and> n \<le> 13) \<or> (28 \<le> n \<and> n \<le> 32))"

definition is_digit :: "char \<Rightarrow> bool" where
  "is_digit c = (let n = (of_char c :: nat) in 48 \<le> n \<and> n \<le> 57)"

definition is_upper :: "char \<Rightarrow> bool" where
  "is_upper c = (let n = (of_char c :: nat) in 65 \<le> n \<and> n \<le> 90)"

definition is_lower :: "char \<Rightarrow> bool" where
  "is_lower c = (let n = (of_char c :: nat) in 97 \<le> n \<and> n \<le> 122)"

definition is_word :: "char \<Rightarrow> bool" where
  "is_word c = (is_digit c \<or> is_upper c \<or> is_lower c \<or> c = CHR ''_'')"

definition to_upper :: "char \<Rightarrow> char" where
  "to_upper c = (if is_lower c then char_of ((of_char c :: nat) - 32) else c)"

definition to_lower :: "char \<Rightarrow> char" where
  "to_lower c = (if is_upper c then char_of ((of_char c :: nat) + 32) else c)"

definition strip :: "string \<Rightarrow> string" where
  "strip s = rev (dropWhile is_space (rev (dropWhile is_space s)))"

text \<open>
  \<open>str.title\<close>: a letter that follows a letter is lowered, any other letter is raised.
  The flag says whether the previous character was a letter.
\<close>

fun title_from :: "bool \<Rightarrow> string \<Rightarrow> string" where
  "title_from prev [] = []"
| "title_from prev (c # cs) =
     (if is_upper c \<or> is_lower c
      then (if prev then to_lower c else to_upper c) # title_from True cs
      else c # title_from False cs)"

definition title :: "string \<Rightarrow> string" where
  "title s = title_from False s"

text \<open>Text given by its UTF-8 bytes (the Cyrillic literals of the sources).\<close>

definition utf8 :: "nat list \<Rightarrow> string" where
  "utf8 bs = map char_of bs"

section \<open>analyzers/price\_calculator.py\<close>

text \<open>
  \<open>re.sub(r'^\d+\s+', '', address)\<close>: a leading run of digits followed by white space
  is removed, together with all of that white space; anything else is left as it is.
\<close>

definition sub_house_number :: "string \<Rightarrow> string" where
  "sub_house_number s =
     (let r = dropWhile is_digit s
      in if takeWhile is_digit s \<noteq> [] \<and> takeWhile is_space r \<noteq> []
         then dropWhile is_space r else s)"

definition extract_street_name :: "string \<Rightarrow> string" where
  "extract_street_name address =
     (let a1 = strip address;
          a2 = (if CHR '','' \<in> set a1 then takeWhile (\<lambda>c. c \<noteq> CHR '','') a1 else a1);
          a3 = sub_house_number a2
      in strip a3)"

section \<open>data/geocoder.py\<close>

subsection \<open>Distance\<close>

text \<open>\<open>math.radians\<close> and \<open>math.atan2\<close>.\<close>

definition radians :: "real \<Rightarrow> real" where
  "radians x = x * pi / 180"

definition atan2 :: "real \<Rightarrow> real \<Rightarrow> real" where
  "atan2 y x =
     (if 0 < x then arctan (y / x)
      else if x < 0 then (if 0 \<le> y then arctan (y / x) + pi else arctan (y / x) - pi)
      else if 0 < y then pi / 2
      else if y < 0 then - (pi / 2)
      else 0)"

text \<open>
  The quantity under the two square roots; \<open>math.sqrt\<close> raises on a negative number,
  and lemma \<open>haversine_a_range\<close> below shows that neither root can.
\<close>

definition haversine_a :: "real \<Rightarrow> real \<Rightarrow> real \<Rightarrow> real \<Rightarrow> real" where
  "haversine_a lat1_rad lat2_rad dlat dlon =
     (sin (dlat / 2)) ^ 2 + cos lat1_rad * cos lat2_rad * (sin (dlon / 2)) ^ 2"

definition haversine_distance :: "real \<Rightarrow> real \<Rightarrow> real \<Rightarrow> real \<Rightarrow> real" where
  "haversine_distance lat1 lon1 lat2 lon2 =
     (let R = 3959;
          lat1_rad = radians lat1;
          lat2_rad = radians lat2;
          dlat = radians (lat2 - lat1);
          dlon = radians (lon2 - lon1);
          a = haversine_a lat1_rad lat2_rad dlat dlon;
          c = 2 * atan2 (sqrt a) (sqrt (1 - a))
      in R * c)"

definition validate_coordinates :: "config \<Rightarrow> real \<Rightarrow> real \<Rightarrow> bool" where
  "validate_coordinates cfg lat lon =
     (haversine_distance (CITY_CENTER_lat cfg) (CITY_CENTER_lon cfg) lat lon \<le> RADIUS_MILES cfg)"


subsection \<open>The cache, the geocoding service and the random source\<close>

type_synonym coords = "real \<times> real"

text \<open>
  What \<open>geolocator.geocode\<close> can do: return a location, return \<open>None\<close>, or raise one of
  the two exceptions the module catches.
\<close>

datatype geocode_result = Location real real | NoLocation | GeocoderTimedOut | GeocoderServiceError

text \<open>
  A value that \<open>json.load\<close> returns.  An object holds its members in order, under
  distinct keys.
\<close>

datatype json =
    JNull | JBool bool | JNum real | JStr string | JArr "json list" | JObj "(string \<times> json) list"

text \<open>
  A tuple, member by member: the pair of floats \<open>(lat, lon)\<close> is \<open>[JNum lat, JNum lon]\<close>.
  The cache is a dictionary from addresses to tuples, in the order of insertion.
\<close>

type_synonym py_tuple = "json list"

type_synonym cache_dict = "(string \<times> py_tuple) list"

definition pair :: "coords \<Rightarrow> py_tuple" where
  "pair c = [JNum (fst c), JNum (snd c)]"

text \<open>
  The cache file as \<open>load_geocode_cache\<close> meets it: not there; there, but \<open>open\<close> raises
  an \<open>OSError\<close>; bytes that are not UTF-8; text that is not JSON; or the value it holds.
\<close>

datatype cache_file = Missing | Unreadable | NotUtf8 | NotJson | Json json

text \<open>
  The directory of the file as \<open>save_geocode_cache\<close> meets it: there; not there, and
  \<open>os.makedirs\<close> creates it; not there, and \<open>os.makedirs\<close> raises an \<open>OSError\<close>.
  Writing the file: it succeeds; \<open>open\<close> raises an \<open>OSError\<close>; or the file is opened,
  which empties it, and an \<open>OSError\<close> cuts the writing short.
\<close>

datatype cache_dir = DirPresent | DirCreatable | DirBlocked

datatype file_access = Writable | OpenRefused | WriteBroken

text \<open>
  The state the module works on: the global \<open>_cache\<close> (\<open>None\<close> until the first load),
  the file and its directory, and counters for the calls sent to the service, the random
  numbers drawn and the seconds slept.
\<close>

record world =
  mem_cache :: "cache_dict option"
  disk_cache :: cache_file
  disk_dir :: cache_dir
  disk_access :: file_access
  calls :: nat
  draws :: nat
  slept :: nat

text \<open>
  The outside: the answer of the service to the \<open>n\<close>-th call, which may depend on the
  query, and the \<open>n\<close>-th value of \<open>random.random()\<close>.
\<close>

record outside =
  geocode_reply :: "nat \<Rightarrow> string \<Rightarrow> geocode_result"
  random_unit :: "nat \<Rightarrow> real"

definition sleep :: "nat \<Rightarrow> world \<Rightarrow> world" where
  "sleep n w = w\<lparr>slept := slept w + n\<rparr>"

definition geolocator_geocode :: "outside \<Rightarrow> string \<Rightarrow> world \<Rightarrow> geocode_result \<times> world" where
  "geolocator_geocode env query w = (geocode_reply env (calls w) query, w\<lparr>calls := calls w + 1\<rparr>)"

text \<open>\<open>random.uniform(a, b)\<close> is \<open>a + (b - a) * random()\<close>.\<close>

definition random_uniform :: "outside \<Rightarrow> real \<Rightarrow> real \<Rightarrow> world \<Rightarrow> real \<times> world" where
  "random_uniform env a b w = (a + (b - a) * random_unit env (draws w), w\<lparr>draws := draws w + 1\<rparr>)"

text \<open>
  \<open>tuple(coords)\<close>: the members of a list, the characters of a string, the keys of an
  object; \<open>TypeError\<close> for a value that cannot be iterated.
\<close>

definition tuple_of :: "json \<Rightarrow> py_error + py_tuple" where
  "tuple_of v =
     (case v of
        JArr xs \<Rightarrow> Inr xs
      | JStr s \<Rightarrow> Inr (map (\<lambda>c. JStr [c]) s)
      | JObj kvs \<Rightarrow> Inr (map (\<lambda>kv. JStr (fst kv)) kvs)
      | _ \<Rightarrow> Inl TypeError)"

text \<open>\<open>{addr: tuple(coords) for addr, coords in data.items()}\<close>.\<close>

fun dict_comprehension :: "(string \<times> json) list \<Rightarrow> py_error + cache_dict" where
  "dict_comprehension [] = Inr []"
| "dict_comprehension (kv # rest) =
     (case tuple_of (snd kv) of
        Inl e \<Rightarrow> Inl e
      | Inr t \<Rightarrow>
          (case dict_comprehension rest of
             Inl e \<Rightarrow> Inl e
           | Inr d \<Rightarrow> Inr ((fst kv, t) # d)))"

text \<open>
  Only \<open>JSONDecodeError\<close> and \<open>IOError\<close> are caught: text that is not UTF-8, a value
  without \<open>items\<close> and a member that cannot be iterated raise.
\<close>

definition load_geocode_cache :: "world \<Rightarrow> py_error + (cache_dict \<times> world)" where
  "load_geocode_cache w =
     (case mem_cache w of
        Some cache \<Rightarrow> Inr (cache, w)
      | None \<Rightarrow>
          (case disk_cache w of
             Missing \<Rightarrow> Inr ([], w\<lparr>mem_cache := Some []\<rparr>)
           | Unreadable \<Rightarrow> Inr ([], w\<lparr>mem_cache := Some []\<rparr>)
           | NotJson \<Rightarrow> Inr ([], w\<lparr>mem_cache := Some []\<rparr>)
           | NotUtf8 \<Rightarrow> Inl UnicodeDecodeError
           | Json data \<Rightarrow>
               (case data of
                  JObj items \<Rightarrow>
                    (case dict_comprehension items of
                       Inl e \<Rightarrow> Inl e
                     | Inr cache \<Rightarrow> Inr (cache, w\<lparr>mem_cache := Some cache\<rparr>))
                | _ \<Rightarrow> Inl AttributeError)))"

text \<open>
  \<open>os.makedirs\<close> stands before the \<open>try\<close>, so its error is not caught; an error of
  \<open>open\<close> or of the writing is.
\<close>

definition save_geocode_cache :: "cache_dict \<Rightarrow> world \<Rightarrow> py_error + world" where
  "save_geocode_cache cache w =
     (if disk_dir w = DirBlocked then Inl OSError
      else
        let w1 = w\<lparr>disk_dir := DirPresent\<rparr>
        in case disk_access w of
             Writable \<Rightarrow>
               Inr (w1\<lparr>disk_cache := Json (JObj (map (\<lambda>kv. (fst kv, JArr (snd kv))) cache)),
                       mem_cache := Some cache\<rparr>)
           | OpenRefused \<Rightarrow> Inr w1
           | WriteBroken \<Rightarrow> Inr (w1\<lparr>disk_cache := NotJson\<rparr>))"

text \<open>\<open>cache[address] = coords\<close>: the entry is replaced where it stands, or added at the end.\<close>

fun dict_set :: "string \<Rightarrow> py_tuple \<Rightarrow> cache_dict \<Rightarrow> cache_dict" where
  "dict_set k v [] = [(k, v)]"
| "dict_set k v (kv # d) = (if fst kv = k then (k, v) # d else kv # dict_set k v d)"

text \<open>
  \<open>cache[address] = coords; save_geocode_cache(cache)\<close>.  The dictionary is the object
  held by \<open>_cache\<close>, so the entry is in memory whether or not the file is written.
\<close>

definition cache_store :: "cache_dict \<Rightarrow> string \<Rightarrow> coords \<Rightarrow> world \<Rightarrow> py_error + world" where
  "cache_store cache addr c w =
     (let cache' = dict_set addr (pair c) cache
      in save_geocode_cache cache' (w\<lparr>mem_cache := Some cache'\<rparr>))"

text \<open>
  \<open>re.search(r'\b\d{5}\b', address)\<close>: the first run of exactly five digits that has no
  word character before or after it.  The flag says whether the previous character is a
  word character.
\<close>

definition zip_here :: "bool \<Rightarrow> string \<Rightarrow> bool" where
  "zip_here prev s =
     (\<not> prev \<and> 5 \<le> length s \<and> list_all is_digit (take 5 s) \<and>
      (case drop 5 s of [] \<Rightarrow> True | d # _ \<Rightarrow> \<not> is_word d))"

fun zip_search_from :: "bool \<Rightarrow> string \<Rightarrow> string option" where
  "zip_search_from prev [] = None"
| "zip_search_from prev (c # cs) =
     (if zip_here prev (c # cs) then Some (take 5 (c # cs))
      else zip_search_from (is_word c) cs)"

definition zip_search :: "string \<Rightarrow> string option" where
  "zip_search s = zip_search_from False s"

subsection \<open>fallback\_geocode\<close>

text \<open>The three attempts, in the order of the source; each hands on to the next on \<open>None\<close>.\<close>

definition fallback_attempt1 :: "outside \<Rightarrow> config \<Rightarrow> string \<Rightarrow> world \<Rightarrow> coords option \<times> world" where
  "fallback_attempt1 env cfg addr w =
     (let street_only = extract_street_name addr;
          full_address = street_only @ '', Asheville, NC''
      in case geolocator_geocode env full_address w of
           (Location la lo, w1) \<Rightarrow>
             if validate_coordinates cfg la lo then (Some (la, lo), sleep 1 w1)
             else (None, sleep 1 w1)
         | (NoLocation, w1) \<Rightarrow> (None, sleep 1 w1)
         | (GeocoderTimedOut, w1) \<Rightarrow> (None, sleep 2 w1)
         | (GeocoderServiceError, w1) \<Rightarrow> (None, sleep 2 w1))"

definition fallback_attempt2 :: "outside \<Rightarrow> config \<Rightarrow> string \<Rightarrow> world \<Rightarrow> coords option \<times> world" where
  "fallback_attempt2 env cfg addr w =
     (case zip_search addr of
        None \<Rightarrow> (None, w)
      | Some zip5 \<Rightarrow>
          (case geolocator_geocode env (zip5 @ '', NC'') w of
             (Location la lo, w1) \<Rightarrow>
               (case random_uniform env (- 0.01) 0.01 w1 of (dx, w2) \<Rightarrow>
                case random_uniform env (- 0.01) 0.01 w2 of (dy, w3) \<Rightarrow>
                  let lat = la + dx; lon = lo + dy
                  in if validate_coordinates cfg lat lon then (Some (lat, lon), sleep 1 w3)
                     else (None, sleep 1 w3))
           | (NoLocation, w1) \<Rightarrow> (None, sleep 1 w1)
           | (GeocoderTimedOut, w1) \<Rightarrow> (None, sleep 2 w1)
           | (GeocoderServiceError, w1) \<Rightarrow> (None, sleep 2 w1)))"

definition fallback_attempt3 :: "outside \<Rightarrow> config \<Rightarrow> world \<Rightarrow> coords option \<times> world" where
  "fallback_attempt3 env cfg w =
     (case random_uniform env (- 0.05) 0.05 w of (dx, w1) \<Rightarrow>
      case random_uniform env (- 0.05) 0.05 w1 of (dy, w2) \<Rightarrow>
        (Some (CITY_CENTER_lat cfg + dx, CITY_CENTER_lon cfg + dy), w2))"

definition fallback_geocode :: "outside \<Rightarrow> config \<Rightarrow> string \<Rightarrow> world \<Rightarrow> coords option \<times> world" where
  "fallback_geocode env cfg addr w =
     (case fallback_attempt1 env cfg addr w of
        (Some c, w1) \<Rightarrow> (Some c, w1)
      | (None, w1) \<Rightarrow>
          (case fallback_attempt2 env cfg addr w1 of
             (Some c, w2) \<Rightarrow> (Some c, w2)
           | (None, w2) \<Rightarrow> fallback_attempt3 env cfg w2))"

subsection \<open>geocode\_address\<close>

text \<open>
  The loop \<open>for attempt in range(3)\<close>; \<open>None\<close> stands for leaving the loop without a
  result, by \<open>break\<close> or by exhaustion.
\<close>

function primary_attempts ::
  "outside \<Rightarrow> config \<Rightarrow> cache_dict \<Rightarrow> string \<Rightarrow> nat \<Rightarrow> world \<Rightarrow> py_error + (coords option \<times> world)"
where
  "primary_attempts env cfg cache addr attempt w =
     (if 3 \<le> attempt then Inr (None, w)
      else
        case geolocator_geocode env (addr @ '', Asheville, NC'') w of
          (Location la lo, w1) \<Rightarrow>
            if validate_coordinates cfg la lo
            then (case cache_store cache addr (la, lo) w1 of
                    Inl e \<Rightarrow> Inl e
                  | Inr w2 \<Rightarrow> Inr (Some (la, lo), sleep 1 w2))
            else Inr (None, sleep 1 w1)
        | (NoLocation, w1) \<Rightarrow> Inr (None, sleep 1 w1)
        | (GeocoderTimedOut, w1) \<Rightarrow>
            if attempt < 2 then primary_attempts env cfg cache addr (attempt + 1) (sleep 2 w1)
            else Inr (None, w1)
        | (GeocoderServiceError, w1) \<Rightarrow> Inr (None, sleep 2 w1))"
  by pat_completeness auto
termination
  by (relation "measure (\<lambda>(env, cfg, cache, addr, attempt, w). 3 - attempt)") auto

declare primary_attempts.simps [simp del]

definition geocode_address ::
  "outside \<Rightarrow> config \<Rightarrow> string \<Rightarrow> world \<Rightarrow> py_error + (py_tuple option \<times> world)" where
  "geocode_address env cfg address0 w =
     (let addr = title (strip address0)
      in case load_geocode_cache w of
           Inl e \<Rightarrow> Inl e
         | Inr (cache, w0) \<Rightarrow>
             (case map_of cache addr of
                Some t \<Rightarrow> Inr (Some t, w0)
              | None \<Rightarrow>
                  (case primary_attempts env cfg cache addr 0 w0 of
                     Inl e \<Rightarrow> Inl e
                   | Inr (Some c, w1) \<Rightarrow> Inr (Some (pair c), w1)
                   | Inr (None, w1) \<Rightarrow>
                       (case fallback_geocode env cfg addr w1 of
                          (Some c, w2) \<Rightarrow>
                            (case cache_store cache addr c w2 of
                               Inl e \<Rightarrow> Inl e
                             | Inr w3 \<Rightarrow> Inr (Some (pair c), w3))
                        | (None, w2) \<Rightarrow> Inr (None, w2)))))"

section \<open>analyzers/street\_analyzer.py\<close>

definition determine_color :: "config \<Rightarrow> real \<Rightarrow> string" where
  "determine_color cfg avg_price_sqft =
     (if avg_price_sqft \<ge> COLOR_THRESHOLDS_green cfg then ''green''
      else if avg_price_sqft \<ge> COLOR_THRESHOLDS_light_green cfg then ''light_green''
      else if avg_price_sqft \<ge> COLOR_THRESHOLDS_yellow cfg then ''yellow''
      else ''red'')"

text \<open>
  The metrics dictionary of \<open>calculate_street_metrics\<close>; the empty dictionary it
  returns when no price is usable is \<open>None\<close>.
\<close>

record street_metrics =
  median_price_sqft :: real
  min_price_sqft :: real
  max_price_sqft :: real
  sample_size :: int
  avg_dom :: "real option"
  min_dom :: "int option"
  max_dom :: "int option"

text \<open>\<open>[p.f for p in properties if p.f]\<close>: the truthy values of a column.\<close>

definition truthy_values :: "('p \<Rightarrow> 'a::zero option) \<Rightarrow> 'p list \<Rightarrow> 'a list" where
  "truthy_values f ps = map (\<lambda>p. the (f p)) (filter (\<lambda>p. truthy (f p)) ps)"

definition calculate_street_metrics :: "Property list \<Rightarrow> street_metrics option" where
  "calculate_street_metrics props =
     (let prices = truthy_values price_per_sqft props
      in if length prices = 0 then None
         else
           let doms = truthy_values days_on_market props
           in Some \<lparr> median_price_sqft = np_median prices,
                     min_price_sqft = the (py_min prices),
                     max_price_sqft = the (py_max prices),
                     sample_size = int (length props),
                     avg_dom = (if length doms > 0 then Some (np_mean (map real_of_int doms)) else None),
                     min_dom = (if length doms > 0 then py_min doms else None),
                     max_dom = (if length doms > 0 then py_max doms else None) \<rparr>)"

section \<open>analyzers/market\_heat.py\<close>

text \<open>
  \<open>sold_90d / 3.0\<close> and \<open>active / monthly_sales\<close> convert the integer to a double and
  divide doubles; \<open>999.0\<close> and \<open>3.0\<close> are doubles as they stand.
\<close>

definition calculate_inventory_months :: "int \<Rightarrow> int \<Rightarrow> real" where
  "calculate_inventory_months active sold_90d =
     (if sold_90d = 0 then 999
      else
        let monthly_sales = fl (fl (real_of_int sold_90d) / 3)
        in if monthly_sales = 0 then 999
           else
             let inventory_months = fl (fl (real_of_int active) / monthly_sales)
             in round_ndigits inventory_months 1)"

definition determine_market_status :: "real \<Rightarrow> real \<Rightarrow> real \<Rightarrow> string" where
  "determine_market_status inventory price_change dom_change =
     (if inventory > 12 then ''cold''
      else if inventory \<ge> 6 then ''stable''
      else if price_change > 15 then ''overheated''
      else ''growing'')"

text \<open>
  The other functions of the module are not needed below: the two counts are the
  arguments of \<open>calculate_inventory_months\<close>, and the two changes are arguments of
  \<open>determine_market_status\<close>.  \<open>analyze_market_heat_by_zip\<close> hands the status to the
  constructor of \<open>MarketHeatZone\<close> under the keyword \<open>market_status\<close>, which the class
  does not have.
\<close>

section \<open>analyzers/land\_scorer.py\<close>

text \<open>\<open>d and d >= t\<close> on a nullable date: an absent date fails the test.\<close>

definition on_or_after :: "datetime option \<Rightarrow> datetime \<Rightarrow> bool" where
  "on_or_after d t = (case d of None \<Rightarrow> False | Some x \<Rightarrow> t \<le> x)"

definition get_nearby_properties :: "repo \<Rightarrow> datetime \<Rightarrow> real \<Rightarrow> real \<Rightarrow> real \<Rightarrow> Property list" where
  "get_nearby_properties db now lat lon radius_miles =
     (let one_year_ago = now - days 365;
          all_properties =
            filter (\<lambda>p. latitude p \<noteq> None \<and> longitude p \<noteq> None \<and> archived p = False)
                   (properties db)
      in filter (\<lambda>prop.
                   haversine_distance lat lon (the (latitude prop)) (the (longitude prop)) \<le> radius_miles \<and>
                   ((status prop = ''sold'' \<and> on_or_after (sale_date prop) one_year_ago) \<or>
                    status prop = ''active''))
                all_properties)"

definition calculate_avg_nearby_price_sqft :: "Property list \<Rightarrow> real" where
  "calculate_avg_nearby_price_sqft props =
     (let prices = truthy_values price_per_sqft props
      in if length prices = 0 then 0 else np_mean prices)"

definition count_recent_sales :: "datetime \<Rightarrow> Property list \<Rightarrow> int" where
  "count_recent_sales now props =
     (let ninety_days_ago = now - days 90
      in int (length (filter (\<lambda>p. status p = ''sold'' \<and> on_or_after (sale_date p) ninety_days_ago) props)))"

definition score_zone_color :: "string \<Rightarrow> int" where
  "score_zone_color color =
     (if color = ''green'' then 100
      else if color = ''light_green'' then 75
      else if color = ''yellow'' then 50
      else if color = ''red'' then 0
      else 0)"

definition score_market_heat :: "string \<Rightarrow> int" where
  "score_market_heat st =
     (if st = ''growing'' then 100
      else if st = ''stable'' then 80
      else if st = ''cold'' then 50
      else if st = ''overheated'' then 0
      else 0)"

text \<open>Float division raises on a zero divisor.\<close>

definition py_div :: "real \<Rightarrow> real \<Rightarrow> py_error + real" where
  "py_div a b = (if b = 0 then Inl ZeroDivisionError else Inr (a / b))"

definition score_price_opportunity :: "real \<Rightarrow> real \<Rightarrow> py_error + int" where
  "score_price_opportunity land_price_sqft avg_nearby_price_sqft =
     (if avg_nearby_price_sqft = 0 then Inr 0
      else
        case py_div land_price_sqft avg_nearby_price_sqft of
          Inl e \<Rightarrow> Inl e
        | Inr price_ratio \<Rightarrow>
            Inr (if price_ratio < 0.5 then 100
                 else if price_ratio < 0.7 then 75
                 else if price_ratio < 0.9 then 50
                 else 0))"

definition calculate_land_score ::
  "config \<Rightarrow> string \<Rightarrow> string \<Rightarrow> real \<Rightarrow> real \<Rightarrow> int \<Rightarrow> py_error + int" where
  "calculate_land_score cfg zone_color market_status nearby_avg_price_sqft land_price_sqft recent_sales_count =
     (let color_score = score_zone_color zone_color;
          heat_score = score_market_heat market_status
      in case score_price_opportunity land_price_sqft nearby_avg_price_sqft of
           Inl e \<Rightarrow> Inl e
         | Inr price_score \<Rightarrow>
             let activity_score =
                   (if recent_sales_count \<ge> 5 then 100
                    else if recent_sales_count \<ge> 3 then 75
                    else if recent_sales_count \<ge> 1 then 50
                    else (0::int));
                 total_score =
                   real_of_int color_score * URGENCY_SCORING_zone_color cfg +
                   real_of_int heat_score * URGENCY_SCORING_market_heat cfg +
                   real_of_int price_score * URGENCY_SCORING_price_opportunity cfg +
                   real_of_int activity_score * URGENCY_SCORING_recent_sales cfg
             in Inr (py_round total_score))"

text \<open>
  The pieces of \<open>evaluate_land_opportunity\<close>, named after its local variables.  \<open>the\<close>
  is applied to a column only behind the truthiness test of that column.
\<close>

definition land_price :: "Property \<Rightarrow> real option" where
  "land_price property_obj = py_or (list_price property_obj) (sale_price property_obj)"

definition land_price_sqft_of :: "Property \<Rightarrow> real \<Rightarrow> real" where
  "land_price_sqft_of property_obj price =
     (if \<not> truthy (sqft property_obj) \<or> sqft property_obj = Some 0
      then
        let land_sqft = the (lot_size property_obj) * 43560
        in if land_sqft > 0 then price / land_sqft else 0
      else the (py_or (price_per_sqft property_obj) (Some (price / the (sqft property_obj)))))"

definition land_notes :: "string \<Rightarrow> string \<Rightarrow> string" where
  "land_notes zone_color market_status =
     utf8 [208, 163, 209, 135, 208, 176, 209, 129, 209, 130, 208, 190, 208, 186, 32, 208, 178, 32]
     @ zone_color
     @ utf8 [32, 208, 183, 208, 190, 208, 189, 208, 181, 44, 32, 209, 128, 209, 139, 208, 189,
             208, 190, 208, 186, 32]
     @ market_status"

definition urgency_level_of :: "config \<Rightarrow> int \<Rightarrow> string" where
  "urgency_level_of cfg urgency_score =
     (if real_of_int urgency_score \<ge> URGENCY_LEVELS_urgent cfg then ''urgent''
      else if real_of_int urgency_score \<ge> URGENCY_LEVELS_good cfg then ''good''
      else ''normal'')"

text \<open>
  The status as text, for the score and the note.  It is used behind the test of the
  allowed statuses, where the value is one of the allowed strings.
\<close>

definition str_of :: "pyval \<Rightarrow> string" where
  "str_of v = (case v of PyStr s \<Rightarrow> s | _ \<Rightarrow> [])"

fun update_first :: "('a \<Rightarrow> bool) \<Rightarrow> ('a \<Rightarrow> 'a) \<Rightarrow> 'a list \<Rightarrow> 'a list" where
  "update_first P f [] = []"
| "update_first P f (x # xs) = (if P x then f x # xs else x # update_first P f xs)"

text \<open>
  Lines 347 to 375: the row of the parcel is looked up by \<open>property_id\<close>; it is updated
  when there is one, else the new object is added.  No call reaches these lines, since the
  constructor before them raises, so the constraints that \<open>commit\<close> checks are left out.
\<close>

definition save_land_opportunity ::
  "orm_row \<Rightarrow> int \<Rightarrow> (string \<times> pyval) list \<Rightarrow> repo \<Rightarrow> py_error + (orm_row option \<times> repo)" where
  "save_land_opportunity land_opp property_id assignments db =
     (case filter_by_first LandOpportunity_columns ''property_id'' (PyInt property_id)
             (land_opportunities db) of
        Inl e \<Rightarrow> Inl e
      | Inr None \<Rightarrow>
          Inr (Some land_opp, db\<lparr>land_opportunities := land_opportunities db @ [land_opp]\<rparr>)
      | Inr (Some existing) \<Rightarrow>
          let renewed = fold (\<lambda>kv. setattr (fst kv) (snd kv)) assignments existing
          in Inr (Some renewed,
                  db\<lparr>land_opportunities :=
                       update_first (\<lambda>r. r = existing) (\<lambda>r. renewed) (land_opportunities db)\<rparr>))"

text \<open>
  Lines 265 to 375 of \<open>evaluate_land_opportunity\<close>, as a function of the two local
  variables that lines 249 and 260 bind: the filters on the parcel and its surroundings,
  the score, the constructor and the saving.
\<close>

definition evaluate_from_filters ::
  "config \<Rightarrow> datetime \<Rightarrow> datetime \<Rightarrow> repo \<Rightarrow> Property \<Rightarrow> string \<Rightarrow> pyval \<Rightarrow>
     py_error + (orm_row option \<times> repo)" where
  "evaluate_from_filters cfg now utcnow db property_obj zone_color market_status =
     (let price = land_price property_obj
      in if \<not> truthy price \<or> the price > LAND_FILTER_max_price cfg then Inr (None, db)
         else if \<not> truthy (lot_size property_obj) \<or>
                 the (lot_size property_obj) < LAND_FILTER_min_lot_size cfg then Inr (None, db)
         else if zone_color \<notin> set (LAND_FILTER_allowed_zone_colors cfg) then Inr (None, db)
         else if market_status \<notin> set (map PyStr (LAND_FILTER_market_heat_allowed cfg)) then Inr (None, db)
         else
           let nearby_properties =
                 get_nearby_properties db now (the (latitude property_obj))
                   (the (longitude property_obj)) 5
           in if length nearby_properties = 0 then Inr (None, db)
              else
                let avg_nearby_price_sqft = calculate_avg_nearby_price_sqft nearby_properties
                in if avg_nearby_price_sqft < LAND_FILTER_min_nearby_price_sqft cfg then Inr (None, db)
                   else
                     let recent_sales_count = count_recent_sales now nearby_properties
                     in if recent_sales_count < LAND_FILTER_min_recent_sales cfg then Inr (None, db)
                        else
                          let land_price_sqft = land_price_sqft_of property_obj (the price)
                          in case calculate_land_score cfg zone_color (str_of market_status)
                                    avg_nearby_price_sqft land_price_sqft recent_sales_count of
                               Inl e \<Rightarrow> Inl e
                             | Inr urgency_score \<Rightarrow>
                                 let urgency_level = urgency_level_of cfg urgency_score;
                                     notes = land_notes zone_color (str_of market_status)
                                 in case declarative_constructor LandOpportunity_columns
                                           [(''property_id'', PyInt (prop_id property_obj)),
                                            (''urgency_score'', PyInt urgency_score),
                                            (''urgency_level'', PyStr urgency_level),
                                            (''zone_color'', PyStr zone_color),
                                            (''market_status'', market_status),
                                            (''nearby_avg_price_sqft'', PyFloat avg_nearby_price_sqft),
                                            (''recent_sales_count'', PyInt recent_sales_count),
                                            (''notes'', PyStr notes),
                                            (''created_at'', PyDateTime utcnow)] of
                                      Inl e \<Rightarrow> Inl e
                                    | Inr land_opp \<Rightarrow>
                                        save_land_opportunity land_opp (prop_id property_obj)
                                          [(''urgency_score'', PyInt urgency_score),
                                           (''urgency_level'', PyStr urgency_level),
                                           (''zone_color'', PyStr zone_color),
                                           (''market_status'', market_status),
                                           (''nearby_avg_price_sqft'', PyFloat avg_nearby_price_sqft),
                                           (''recent_sales_count'', PyInt recent_sales_count),
                                           (''notes'', PyStr notes)]
                                          db)"

text \<open>
  The whole function: lines 233 to 263 look up the street and the postal area, and line
  260 reads \<open>market_heat.market_status\<close>.
\<close>

definition evaluate_land_opportunity ::
  "config \<Rightarrow> datetime \<Rightarrow> datetime \<Rightarrow> repo \<Rightarrow> Property \<Rightarrow> py_error + (orm_row option \<times> repo)" where
  "evaluate_land_opportunity cfg now utcnow db property_obj =
     (if \<not> truthy (latitude property_obj) \<or> \<not> truthy (longitude property_obj) then Inr (None, db)
      else
        case find (\<lambda>s. sa_street_name s = street_name property_obj \<and> sa_city s = city property_obj)
                  (street_analysis db) of
          None \<Rightarrow> Inr (None, db)
        | Some street_an \<Rightarrow>
            let zone_color = sa_color street_an
            in case find (\<lambda>m. mh_zip_code m = zip_code property_obj) (market_heat_zones db) of
                 None \<Rightarrow> Inr (None, db)
               | Some market_heat \<Rightarrow>
                   (case MarketHeatZone_getattr market_heat ''market_status'' of
                      Inl e \<Rightarrow> Inl e
                    | Inr market_status \<Rightarrow>
                        evaluate_from_filters cfg now utcnow db property_obj zone_color market_status))"

section \<open>analyzers/zone\_analyzer.py\<close>

definition calculate_distance :: "real \<Rightarrow> real \<Rightarrow> real \<Rightarrow> real \<Rightarrow> real" where
  "calculate_distance lat1 lon1 lat2 lon2 =
     (let R = 3959;
          lat1_rad = radians lat1;
          lon1_rad = radians lon1;
          lat2_rad = radians lat2;
          lon2_rad = radians lon2;
          dlat = lat2_rad - lat1_rad;
          dlon = lon2_rad - lon1_rad;
          a = haversine_a lat1_rad lat2_rad dlat dlon;
          c = 2 * atan2 (sqrt a) (sqrt (1 - a));
          distance = R * c
      in distance)"

text \<open>\<open>column.between(lo, hi)\<close> in a query; a \<open>NULL\<close> column never satisfies it.\<close>

definition between :: "real option \<Rightarrow> real \<Rightarrow> real \<Rightarrow> bool" where
  "between v lo hi = (case v of None \<Rightarrow> False | Some x \<Rightarrow> lo \<le> x \<and> x \<le> hi)"

text \<open>
  The selection part of \<open>analyze_nearby_zones\<close>: the query on the bounding box, then
  the loop that keeps the rows within the radius (the list \<open>nearby_properties\<close>).
\<close>

definition bounding_box_query :: "repo \<Rightarrow> real \<Rightarrow> real \<Rightarrow> real \<Rightarrow> Property list" where
  "bounding_box_query db lat lng radius_miles =
     (let lat_delta = radius_miles / 69;
          lng_delta = radius_miles / 55
      in filter (\<lambda>p. between (latitude p) (lat - lat_delta) (lat + lat_delta) \<and>
                     between (longitude p) (lng - lng_delta) (lng + lng_delta) \<and>
                     price_per_sqft p \<noteq> None \<and>
                     archived p = False)
                (properties db))"

definition analyze_nearby_zones_nearby :: "repo \<Rightarrow> real \<Rightarrow> real \<Rightarrow> real \<Rightarrow> Property list" where
  "analyze_nearby_zones_nearby db lat lng radius_miles =
     filter (\<lambda>prop. calculate_distance lat lng (the (latitude prop)) (the (longitude prop)) \<le> radius_miles)
            (bounding_box_query db lat lng radius_miles)"

section \<open>Vocabulary of the specification\<close>

text \<open>
  The definitions in this section do not come from the sources: they name what the
  statements below compare the code with.
\<close>

subsection \<open>Street zones\<close>

text \<open>The order of the colour tiers: red, yellow, light green, green.\<close>

definition color_tier :: "string \<Rightarrow> nat" where
  "color_tier c =
     (if c = ''green'' then 3 else if c = ''light_green'' then 2
      else if c = ''yellow'' then 1 else 0)"

text \<open>A comparable in which a zero price per area or a zero market duration is made absent.\<close>

definition absent_if_zero :: "Property \<Rightarrow> Property" where
  "absent_if_zero p =
     p\<lparr> price_per_sqft := (if price_per_sqft p = Some 0 then None else price_per_sqft p),
        days_on_market := (if days_on_market p = Some 0 then None else days_on_market p) \<rparr>"

subsection \<open>Market heat\<close>

text \<open>Inventory in months and the status ladder, as the specification words them.\<close>

definition spec_inventory :: "int \<Rightarrow> int \<Rightarrow> real" where
  "spec_inventory active sold_90d = real_of_int active / (real_of_int sold_90d / 3)"

definition spec_market_status :: "real \<Rightarrow> real \<Rightarrow> string" where
  "spec_market_status inventory price_change =
     (if inventory > 12 then ''cold''
      else if inventory \<ge> 6 then ''stable''
      else if price_change > 15 then ''overheated''
      else ''growing'')"

text \<open>
  The quotient \<open>active / (sold / 3.0)\<close> as doubles give it, the number of tenths of a
  month nearest to it (a tie going to the even number), and the ladder on the tenths.
\<close>

definition double_quotient :: "int \<Rightarrow> int \<Rightarrow> real" where
  "double_quotient active sold_90d =
     fl (fl (real_of_int active) / fl (fl (real_of_int sold_90d) / 3))"

definition inventory_tenths :: "int \<Rightarrow> int \<Rightarrow> int" where
  "inventory_tenths active sold_90d = py_round (double_quotient active sold_90d * 10)"

definition status_from_tenths :: "int \<Rightarrow> real \<Rightarrow> string" where
  "status_from_tenths tenths price_change =
     (if tenths > 120 then ''cold''
      else if tenths \<ge> 60 then ''stable''
      else if price_change > 15 then ''overheated''
      else ''growing'')"

subsection \<open>Land opportunities\<close>

text \<open>What the scorer looks up for a parcel: the row of its street and the row of its postal area.\<close>

definition street_zone_of :: "repo \<Rightarrow> Property \<Rightarrow> StreetAnalysis option" where
  "street_zone_of db p =
     find (\<lambda>s. sa_street_name s = street_name p \<and> sa_city s = city p) (street_analysis db)"

definition market_heat_of :: "repo \<Rightarrow> Property \<Rightarrow> MarketHeatZone option" where
  "market_heat_of db p = find (\<lambda>m. mh_zip_code m = zip_code p) (market_heat_zones db)"

text \<open>
  The tests of lines 265 to 307, negated and collected: the condition under which a
  parcel that has reached line 265 comes to the score.
\<close>

definition passes_from_filters :: "config \<Rightarrow> datetime \<Rightarrow> repo \<Rightarrow> Property \<Rightarrow> string \<Rightarrow> pyval \<Rightarrow> bool" where
  "passes_from_filters cfg now db p zone_color market_status =
     (let nearby = get_nearby_properties db now (the (latitude p)) (the (longitude p)) 5
      in truthy (land_price p) \<and> the (land_price p) \<le> LAND_FILTER_max_price cfg \<and>
         truthy (lot_size p) \<and> LAND_FILTER_min_lot_size cfg \<le> the (lot_size p) \<and>
         zone_color \<in> set (LAND_FILTER_allowed_zone_colors cfg) \<and>
         market_status \<in> set (map PyStr (LAND_FILTER_market_heat_allowed cfg)) \<and>
         nearby \<noteq> [] \<and>
         LAND_FILTER_min_nearby_price_sqft cfg \<le> calculate_avg_nearby_price_sqft nearby \<and>
         LAND_FILTER_min_recent_sales cfg \<le> count_recent_sales now nearby)"

text \<open>The weighted sum of four factor scores.\<close>

definition weighted_total :: "config \<Rightarrow> int \<Rightarrow> int \<Rightarrow> int \<Rightarrow> int \<Rightarrow> real" where
  "weighted_total cfg zone market price activity =
     real_of_int zone * URGENCY_SCORING_zone_color cfg +
     real_of_int market * URGENCY_SCORING_market_heat cfg +
     real_of_int price * URGENCY_SCORING_price_opportunity cfg +
     real_of_int activity * URGENCY_SCORING_recent_sales cfg"

text \<open>The factor tables and ladders of the specification.\<close>

definition spec_zone_score :: "string \<Rightarrow> int" where
  "spec_zone_score c =
     (case map_of [(''green'', 100), (''light_green'', 75), (''yellow'', 50), (''red'', 0)] c of
        Some v \<Rightarrow> v | None \<Rightarrow> 0)"

definition spec_market_score :: "string \<Rightarrow> int" where
  "spec_market_score c =
     (case map_of [(''growing'', 100), (''stable'', 80), (''cold'', 50), (''overheated'', 0)] c of
        Some v \<Rightarrow> v | None \<Rightarrow> 0)"

definition spec_price_score :: "real \<Rightarrow> int" where
  "spec_price_score ratio =
     (if ratio < 0.5 then 100 else if ratio < 0.7 then 75 else if ratio < 0.9 then 50 else 0)"

definition spec_activity_score :: "int \<Rightarrow> int" where
  "spec_activity_score n = (if n \<ge> 5 then 100 else if n \<ge> 3 then 75 else if n \<ge> 1 then 50 else 0)"


subsection \<open>Geocoding\<close>

text \<open>
  The cache can be loaded: it is in memory already, or the file is absent, unreadable or
  not JSON (an empty cache each time), or it holds an object whose members can all be
  made tuples.  The store is ready when, besides, the directory of the file is there or
  can be created.
\<close>

definition iterable :: "json \<Rightarrow> bool" where
  "iterable v = (case v of JArr xs \<Rightarrow> True | JStr s \<Rightarrow> True | JObj kvs \<Rightarrow> True | _ \<Rightarrow> False)"

definition file_loads :: "cache_file \<Rightarrow> bool" where
  "file_loads f =
     (case f of
        NotUtf8 \<Rightarrow> False
      | Json data \<Rightarrow> (case data of JObj items \<Rightarrow> list_all (\<lambda>kv. iterable (snd kv)) items | _ \<Rightarrow> False)
      | _ \<Rightarrow> True)"

definition cache_loads :: "world \<Rightarrow> bool" where
  "cache_loads w = (mem_cache w \<noteq> None \<or> file_loads (disk_cache w))"

definition store_ready :: "world \<Rightarrow> bool" where
  "store_ready w = (cache_loads w \<and> disk_dir w \<noteq> DirBlocked)"

text \<open>
  A tuple is plausible when it is a pair of numbers that passes \<open>validate_coordinates\<close>;
  the cache is plausible when every tuple that a load makes of it is.
\<close>

definition plausible_tuple :: "config \<Rightarrow> py_tuple \<Rightarrow> bool" where
  "plausible_tuple cfg t =
     (case t of
        [a, b] \<Rightarrow>
          (case a of
             JNum la \<Rightarrow> (case b of JNum lo \<Rightarrow> validate_coordinates cfg la lo | _ \<Rightarrow> False)
           | _ \<Rightarrow> False)
      | _ \<Rightarrow> False)"

definition plausible_dict :: "config \<Rightarrow> cache_dict \<Rightarrow> bool" where
  "plausible_dict cfg d = list_all (\<lambda>kv. plausible_tuple cfg (snd kv)) d"

definition plausible_file :: "config \<Rightarrow> cache_file \<Rightarrow> bool" where
  "plausible_file cfg f =
     (case f of
        Json data \<Rightarrow>
          (case data of
             JObj items \<Rightarrow>
               list_all (\<lambda>kv. case snd kv of JArr t \<Rightarrow> plausible_tuple cfg t | _ \<Rightarrow> False) items
           | _ \<Rightarrow> True)
      | _ \<Rightarrow> True)"

definition cache_plausible :: "config \<Rightarrow> world \<Rightarrow> bool" where
  "cache_plausible cfg w =
     (case mem_cache w of
        Some d \<Rightarrow> plausible_dict cfg d
      | None \<Rightarrow> plausible_file cfg (disk_cache w))"

text \<open>A step that leaves the cache, the file and its directory alone.\<close>

definition same_store :: "world \<Rightarrow> world \<Rightarrow> bool" where
  "same_store w w' =
     (mem_cache w' = mem_cache w \<and> disk_cache w' = disk_cache w \<and>
      disk_dir w' = disk_dir w \<and> disk_access w' = disk_access w)"

text \<open>The last-resort coordinate: the centre moved by at most 0.05 degrees on each axis.\<close>

definition near_center :: "config \<Rightarrow> coords \<Rightarrow> bool" where
  "near_center cfg c =
     (\<bar>fst c - CITY_CENTER_lat cfg\<bar> \<le> 5 / 100 \<and> \<bar>snd c - CITY_CENTER_lon cfg\<bar> \<le> 5 / 100)"

text \<open>\<open>random.random()\<close> returns a number of the unit interval.\<close>

definition unit_random :: "outside \<Rightarrow> bool" where
  "unit_random env = (\<forall>n. 0 \<le> random_unit env n \<and> random_unit env n \<le> 1)"

subsection \<open>Radius search\<close>

text \<open>
  The radius query without the rectangle: the rows that have a coordinate and a price per
  area, are not archived, and lie within the radius by \<open>calculate_distance\<close>.
\<close>

definition haversine_only :: "repo \<Rightarrow> real \<Rightarrow> real \<Rightarrow> real \<Rightarrow> Property list" where
  "haversine_only db lat lng radius_miles =
     filter (\<lambda>p. latitude p \<noteq> None \<and> longitude p \<noteq> None \<and>
                 price_per_sqft p \<noteq> None \<and> archived p = False \<and>
                 calculate_distance lat lng (the (latitude p)) (the (longitude p)) \<le> radius_miles)
            (properties db)"

text \<open>
  Every stored coordinate has a latitude between -90 and 90 and a longitude at most 180
  degrees away from the longitude of the centre.
\<close>

definition coordinates_in_range :: "repo \<Rightarrow> real \<Rightarrow> bool" where
  "coordinates_in_range db lng =
     list_all (\<lambda>p. case latitude p of
                      None \<Rightarrow> True
                    | Some x \<Rightarrow> (case longitude p of
                                   None \<Rightarrow> True
                                 | Some y \<Rightarrow> \<bar>x\<bar> \<le> 90 \<and> \<bar>y - lng\<bar> \<le> 180))
              (properties db)"
section \<open>Sample data\<close>

text \<open>A configuration, a sold house, a vacant parcel next to it and a small database.\<close>

definition sample_config :: config where
  "sample_config =
     \<lparr> COLOR_THRESHOLDS_green = 350, COLOR_THRESHOLDS_light_green = 300, COLOR_THRESHOLDS_yellow = 220,
       LAND_FILTER_max_price = 150000, LAND_FILTER_min_lot_size = 0.25,
       LAND_FILTER_allowed_zone_colors = [''green'', ''light_green''],
       LAND_FILTER_market_heat_allowed = [''growing'', ''stable'', ''cold''],
       LAND_FILTER_min_nearby_price_sqft = 200, LAND_FILTER_min_recent_sales = 1,
       URGENCY_SCORING_zone_color = 0.3, URGENCY_SCORING_market_heat = 0.3,
       URGENCY_SCORING_price_opportunity = 0.25, URGENCY_SCORING_recent_sales = 0.15,
       URGENCY_LEVELS_urgent = 80, URGENCY_LEVELS_good = 60,
       CITY_CENTER_lat = 35.5951, CITY_CENTER_lon = - 82.5515, RADIUS_MILES = 30 \<rparr>"

definition sample_house :: Property where
  "sample_house =
     \<lparr> prop_id = 1, street_name = ''Main Street'', city = ''Asheville'', zip_code = ''28801'',
       latitude = Some 35.6, longitude = Some (- 82.55),
       sale_price = Some 600000, list_price = Some 610000, sqft = Some 2000,
       price_per_sqft = Some 300, lot_size = Some 0.5, status = ''sold'',
       sale_date = Some (days 950), days_on_market = Some 12, archived = False \<rparr>"

definition sample_parcel :: Property where
  "sample_parcel =
     \<lparr> prop_id = 7, street_name = ''Main Street'', city = ''Asheville'', zip_code = ''28801'',
       latitude = Some 35.6, longitude = Some (- 82.55),
       sale_price = None, list_price = Some 80000, sqft = Some 0,
       price_per_sqft = None, lot_size = Some 1, status = ''active'',
       sale_date = None, days_on_market = None, archived = False \<rparr>"

definition pricey_parcel :: Property where
  "pricey_parcel = sample_parcel\<lparr>list_price := Some 200000\<rparr>"


definition sample_db :: repo where
  "sample_db =
     \<lparr> properties = [sample_house],
       street_analysis =
         [\<lparr> sa_street_name = ''Main Street'', sa_city = ''Asheville'',
            sa_median_price_sqft = 360, sa_min_price_sqft = 300, sa_max_price_sqft = 400,
            sa_avg_dom = None, sa_min_dom = None, sa_max_dom = None,
            sa_color = ''green'', sa_sample_size = 12, sa_confidence_score = 1,
            sa_last_updated = days 900 \<rparr>],
       market_heat_zones =
         [\<lparr> mh_id = 1, mh_zip_code = ''28801'', mh_active_listings = 5, mh_sold_last_90d = 4,
            mh_inventory_months = 3.8, mh_price_change_90d = Some 0, mh_dom_change = Some 0,
            mh_status = ''growing'', mh_recommendation = None,
            mh_last_updated = Some (days 900) \<rparr>],
       land_opportunities = [] \<rparr>"


text \<open>
  A geocoding service that finds nothing, with a random source whose first draw is 0.9 and
  whose other draws are 0.5; a process that has not loaded its cache and has neither a
  cache file nor its directory.
\<close>

definition silent_service :: outside where
  "silent_service =
     \<lparr> geocode_reply = (\<lambda>n q. NoLocation),
       random_unit = (\<lambda>n. if n = 0 then 9 / 10 else 1 / 2) \<rparr>"

definition fresh_world :: world where
  "fresh_world = \<lparr> mem_cache = None, disk_cache = Missing, disk_dir = DirCreatable,
                    disk_access = Writable, calls = 0, draws = 0, slept = 0 \<rparr>"

text \<open>The same configuration with a validity radius of two miles.\<close>

definition tight_radius :: config where
  "tight_radius = sample_config\<lparr>RADIUS_MILES := 2\<rparr>"

text \<open>A house at latitude 60, and a database that holds only this house.\<close>

definition northern_house :: Property where
  "northern_house = sample_house\<lparr>latitude := Some 60, longitude := Some (- 149.98)\<rparr>"

definition northern_db :: repo where
  "northern_db = sample_db\<lparr>properties := [northern_house]\<rparr>"

text \<open>
  The process after it has looked up an address that resolves to latitude 35.6351 under
  the key \<open>Xyzzy\<close>, with two calls sent, two numbers drawn and two seconds slept.
\<close>

definition xyzzy_world :: world where
  "xyzzy_world =
     \<lparr> mem_cache = Some [(''Xyzzy'', pair (35.6351, - 82.5515))],
       disk_cache = Json (JObj [(''Xyzzy'', JArr (pair (35.6351, - 82.5515)))]),
       disk_dir = DirPresent, disk_access = Writable, calls = 2, draws = 2, slept = 2 \<rparr>"
section \<open>Results on the street analyzer\<close>

text \<open>
  C8. The colour ladder is monotone: for medians \<open>m1 \<le> m2\<close> the tier given to \<open>m2\<close>
  (red below yellow below light green below green) is never below the tier given to
  \<open>m1\<close>, whatever the configured thresholds are.
\<close>

theorem determine_color_monotone:
  "m1 \<le> m2 \<Longrightarrow> color_tier (determine_color cfg m1) \<le> color_tier (determine_color cfg m2)"
  by (simp add: determine_color_def color_tier_def)

theorem determine_color_monotone_witness:
  "(300::real) \<le> 360 \<and>
   determine_color sample_config 300 = ''light_green'' \<and>
   determine_color sample_config 360 = ''green'' \<and>
   color_tier (determine_color sample_config 300) \<le> color_tier (determine_color sample_config 360)"
  using determine_color_monotone [of 300 360 sample_config]
  by (simp add: determine_color_def sample_config_def)

text \<open>The selections by truthiness do not see the difference between zero and absent.\<close>

lemma truthy_values_absent_if_zero_price:
  "truthy_values price_per_sqft (map absent_if_zero ps) = truthy_values price_per_sqft ps"
  by (induction ps) (auto simp: truthy_values_def absent_if_zero_def truthy_def split: option.splits)

lemma truthy_values_absent_if_zero_dom:
  "truthy_values days_on_market (map absent_if_zero ps) = truthy_values days_on_market ps"
  by (induction ps) (auto simp: truthy_values_def absent_if_zero_def truthy_def split: option.splits)

lemma truthy_values_nonzero: "x \<in> set (truthy_values f ps) \<Longrightarrow> x \<noteq> 0"
  by (auto simp: truthy_values_def truthy_def split: option.splits)

lemma fold_min_in: "fold min xs (x::'a::linorder) \<in> set (x # xs)"
  by (induction xs arbitrary: x) (auto simp: min_def)

lemma py_min_in: "py_min xs = Some m \<Longrightarrow> m \<in> set xs"
  using fold_min_in by (cases xs) auto

lemma min_dom_not_zero:
  "calculate_street_metrics ps = Some m \<Longrightarrow> min_dom m \<noteq> Some 0"
  by (auto simp: calculate_street_metrics_def Let_def split: if_splits
           dest!: py_min_in truthy_values_nonzero)

lemma street_metrics_absent_if_zero:
  "calculate_street_metrics (map absent_if_zero ps) = calculate_street_metrics ps"
  unfolding calculate_street_metrics_def
  by (simp only: truthy_values_absent_if_zero_price truthy_values_absent_if_zero_dom length_map)

lemma avg_nearby_absent_if_zero:
  "calculate_avg_nearby_price_sqft (map absent_if_zero ps) = calculate_avg_nearby_price_sqft ps"
  unfolding calculate_avg_nearby_price_sqft_def
  by (simp only: truthy_values_absent_if_zero_price)

lemma same_day_sale_no_observation:
  "days_on_market p = Some 0 \<Longrightarrow>
     truthy_values days_on_market (p # ps) = truthy_values days_on_market ps"
  by (simp add: truthy_values_def truthy_def)

text \<open>
  C9. In the street metrics and in the nearby average, a comparable whose price per
  area is 0 or whose days on market is 0 counts exactly as one where the value is
  absent; so the reported minimum of the days on market is never 0, and a sale on the
  day of listing adds no observation of days on market.
\<close>

theorem zero_counts_as_absent:
  "calculate_street_metrics (map absent_if_zero ps) = calculate_street_metrics ps \<and>
   calculate_avg_nearby_price_sqft (map absent_if_zero ps) = calculate_avg_nearby_price_sqft ps \<and>
   (\<forall>m. calculate_street_metrics ps = Some m \<longrightarrow> min_dom m \<noteq> Some 0) \<and>
   (days_on_market p = Some 0 \<longrightarrow>
      truthy_values days_on_market (p # ps) = truthy_values days_on_market ps)"
  using street_metrics_absent_if_zero avg_nearby_absent_if_zero min_dom_not_zero
    same_day_sale_no_observation by blast

lemma sample_street_metrics:
  "calculate_street_metrics [sample_house\<lparr>days_on_market := Some 0\<rparr>, sample_house] =
     Some \<lparr> median_price_sqft = 300, min_price_sqft = 300, max_price_sqft = 300, sample_size = 2,
            avg_dom = Some 12, min_dom = Some 12, max_dom = Some 12 \<rparr>"
  by (simp add: calculate_street_metrics_def truthy_values_def truthy_def sample_house_def
      np_median_def np_mean_def)

theorem zero_counts_as_absent_witness:
  "days_on_market (sample_house\<lparr>days_on_market := Some 0\<rparr>) = Some 0 \<and>
   truthy_values days_on_market [sample_house\<lparr>days_on_market := Some 0\<rparr>, sample_house] = [12] \<and>
   (\<exists>m. calculate_street_metrics [sample_house\<lparr>days_on_market := Some 0\<rparr>, sample_house] = Some m \<and>
        min_dom m = Some 12 \<and> min_dom m \<noteq> Some 0)"
  using zero_counts_as_absent
    [of "[sample_house\<lparr>days_on_market := Some 0\<rparr>, sample_house]"
        "sample_house\<lparr>days_on_market := Some 0\<rparr>"]
  by (simp add: sample_street_metrics) (simp add: truthy_values_def truthy_def sample_house_def)

section \<open>Results on the market heat\<close>

subsection \<open>Rounding to a double\<close>

lemma py_round_error: "\<bar>real_of_int (py_round m) - m\<bar> \<le> 1 / 2"
proof -
  have "0 \<le> m - real_of_int \<lfloor>m\<rfloor>" "m - real_of_int \<lfloor>m\<rfloor> < 1" by linarith+
  then show ?thesis
    by (auto simp: py_round_def Let_def)
qed

lemma py_round_int: "py_round (real_of_int n) = n"
  by (simp add: py_round_def)

text \<open>The double of a number whose mantissa is known.\<close>

lemma fl_scaled:
  fixes k :: nat
  assumes "2 ^ 52 \<le> \<bar>x\<bar> * 2 ^ k" "\<bar>x\<bar> * 2 ^ k < 2 ^ 53"
  shows "fl x = real_of_int (py_round (x * 2 ^ k)) / 2 ^ k"
proof -
  have x: "x \<noteq> 0" using assms(1) by auto
  have p: "(2::real) powr (52 - real k) = 2 ^ 52 / 2 ^ k"
    by (simp add: powr_diff powr_realpow)
  have q: "(2::real) powr (52 - real k + 1) = 2 ^ 53 / 2 ^ k"
    by (simp add: powr_diff powr_realpow powr_add)
  have "(2::real) ^ 52 / 2 ^ k \<le> \<bar>x\<bar>"
    using assms(1) by (simp add: pos_divide_le_eq)
  then have "2 powr real_of_int (52 - int k) \<le> \<bar>x\<bar>"
    using p by simp
  moreover have "\<bar>x\<bar> < (2::real) ^ 53 / 2 ^ k"
    using assms(2) by (simp add: pos_less_divide_eq)
  then have "\<bar>x\<bar> < 2 powr (real_of_int (52 - int k) + 1)"
    using q by simp
  ultimately have "\<lfloor>log 2 \<bar>x\<bar>\<rfloor> = 52 - int k"
    using x by (subst floor_log_eq_powr_iff) auto
  moreover have "(2::real) powr (- real k) = 1 / 2 ^ k"
    by (simp add: powr_minus powr_realpow field_simps)
  ultimately show ?thesis using x by (simp add: fl_def)
qed

text \<open>The relative error of a double is at most \<open>2^-53\<close>.\<close>

lemma fl_error: "\<bar>fl x - x\<bar> \<le> \<bar>x\<bar> / 2 ^ 53"
proof (cases "x = 0")
  case True
  then show ?thesis by (simp add: fl_def)
next
  case False
  define L where "L = \<lfloor>log 2 \<bar>x\<bar>\<rfloor>"
  define s :: real where "s = 2 powr real_of_int (L - 52)"
  have y: "0 < \<bar>x\<bar>" using False by simp
  have "2 powr real_of_int L \<le> 2 powr log 2 \<bar>x\<bar>"
    unfolding L_def by (intro powr_mono) simp_all
  then have low: "2 powr real_of_int L \<le> \<bar>x\<bar>" using y by simp
  have s0: "0 < s" unfolding s_def by simp
  have s: "s = 2 powr real_of_int L / 2 ^ 52"
    unfolding s_def by (simp add: powr_diff)
  have f: "fl x = real_of_int (py_round (x / s)) * s"
    using False unfolding fl_def s_def L_def by (simp add: Let_def)
  have "\<bar>fl x - x\<bar> = \<bar>real_of_int (py_round (x / s)) - x / s\<bar> * s"
  proof -
    have "fl x - x = (real_of_int (py_round (x / s)) - x / s) * s"
      unfolding f using s0 by (simp add: field_simps)
    then show ?thesis using s0 by (simp add: abs_mult)
  qed
  also have "\<dots> \<le> (1 / 2) * s"
    using py_round_error[of "x / s"] s0 by (intro mult_right_mono) simp_all
  also have "\<dots> = 2 powr real_of_int L / 2 ^ 53" unfolding s by simp
  also have "\<dots> \<le> \<bar>x\<bar> / 2 ^ 53" using low by (intro divide_right_mono) simp_all
  finally show ?thesis .
qed

lemma fl_zero_iff: "fl x = 0 \<longleftrightarrow> x = 0"
proof
  assume "fl x = 0"
  then have "\<bar>x\<bar> \<le> \<bar>x\<bar> / 2 ^ 53" using fl_error[of x] by simp
  then have "\<bar>x\<bar> * 2 ^ 53 \<le> \<bar>x\<bar>" by (simp add: field_simps)
  then show "x = 0" by (cases "x = 0") auto
next
  assume "x = 0" then show "fl x = 0" by (simp add: fl_def)
qed

lemma fl_lower: "0 \<le> x \<Longrightarrow> x * (1 - 1 / 2 ^ 53) \<le> fl x"
proof -
  assume "0 \<le> x"
  then have e: "\<bar>fl x - x\<bar> \<le> x / 2 ^ 53" using fl_error[of x] by simp
  have "x * (1 - 1 / 2 ^ 53) = x - x / 2 ^ 53"
    by (simp only: right_diff_distrib mult_1_right times_divide_eq_right)
  then show ?thesis using e by linarith
qed

lemma fl_upper: "0 \<le> x \<Longrightarrow> fl x \<le> x * (1 + 1 / 2 ^ 53)"
proof -
  assume "0 \<le> x"
  then have e: "\<bar>fl x - x\<bar> \<le> x / 2 ^ 53" using fl_error[of x] by simp
  have "x * (1 + 1 / 2 ^ 53) = x + x / 2 ^ 53"
    by (simp only: distrib_left mult_1_right times_divide_eq_right)
  then show ?thesis using e by linarith
qed

lemma fl_nonpos: "x \<le> 0 \<Longrightarrow> fl x \<le> 0"
proof -
  assume "x \<le> 0"
  then have "fl x - x \<le> - x / 2 ^ 53" using fl_error[of x] by (simp add: abs_le_iff)
  moreover have "- x / 2 ^ 53 \<le> - x" using \<open>x \<le> 0\<close> by (simp add: field_simps)
  ultimately show ?thesis by linarith
qed

lemma fl_small_int:
  fixes k :: nat
  assumes "2 ^ 52 \<le> \<bar>real_of_int n\<bar> * 2 ^ k" "\<bar>real_of_int n\<bar> * 2 ^ k < 2 ^ 53"
  shows "fl (real_of_int n) = real_of_int n"
proof -
  have "real_of_int n * 2 ^ k = real_of_int (n * 2 ^ k)" by simp
  then have "py_round (real_of_int n * 2 ^ k) = n * 2 ^ k"
    by (simp only: py_round_int)
  then show ?thesis
    by (subst fl_scaled[OF assms]) simp
qed

lemma fl_12: "fl 12 = 12" using fl_small_int[of 12 49] by simp

lemma fl_6: "fl 6 = 6" using fl_small_int[of 6 50] by simp

subsection \<open>The ladder on a rounded inventory\<close>

text \<open>
  The double of a number of tenths is above 12 exactly when there are more than 120
  tenths, and at least 6 exactly when there are at least 60.
\<close>

lemma tenths_above_12:
  "12 < fl (real_of_int t / 10) \<longleftrightarrow> 120 < t"
proof (cases "120 < t")
  case True
  then have "121 / 10 \<le> real_of_int t / 10" by simp
  then have "(121 / 10) * (1 - 1 / 2 ^ 53) \<le> (real_of_int t / 10) * (1 - 1 / 2 ^ 53)"
    by (intro mult_right_mono) simp_all
  also have "\<dots> \<le> fl (real_of_int t / 10)" using True by (intro fl_lower) simp
  finally show ?thesis using True by simp
next
  case False
  consider "t = 120" | "0 \<le> t" "t \<le> 119" | "t < 0" using False by linarith
  then have "fl (real_of_int t / 10) \<le> 12"
  proof cases
    case 1 then show ?thesis by (simp add: fl_12)
  next
    case 2
    have "fl (real_of_int t / 10) \<le> (real_of_int t / 10) * (1 + 1 / 2 ^ 53)"
      using 2 by (intro fl_upper) simp
    also have "\<dots> \<le> (119 / 10) * (1 + 1 / 2 ^ 53)"
      using 2 by (intro mult_right_mono) simp_all
    finally show ?thesis by simp
  next
    case 3
    then have "fl (real_of_int t / 10) \<le> 0" by (intro fl_nonpos) simp
    then show ?thesis by simp
  qed
  then show ?thesis using False by simp
qed

lemma tenths_from_6:
  "6 \<le> fl (real_of_int t / 10) \<longleftrightarrow> 60 \<le> t"
proof (cases "60 \<le> t")
  case True
  consider "t = 60" | "61 \<le> t" using True by linarith
  then have "6 \<le> fl (real_of_int t / 10)"
  proof cases
    case 1 then show ?thesis by (simp add: fl_6)
  next
    case 2
    then have "61 / 10 \<le> real_of_int t / 10" by simp
    then have "(61 / 10) * (1 - 1 / 2 ^ 53) \<le> (real_of_int t / 10) * (1 - 1 / 2 ^ 53)"
      by (intro mult_right_mono) simp_all
    also have "\<dots> \<le> fl (real_of_int t / 10)" using 2 by (intro fl_lower) simp
    finally show ?thesis by simp
  qed
  then show ?thesis using True by simp
next
  case False
  consider "0 \<le> t" "t \<le> 59" | "t < 0" using False by linarith
  then have "fl (real_of_int t / 10) < 6"
  proof cases
    case 1
    have "fl (real_of_int t / 10) \<le> (real_of_int t / 10) * (1 + 1 / 2 ^ 53)"
      using 1 by (intro fl_upper) simp
    also have "\<dots> \<le> (59 / 10) * (1 + 1 / 2 ^ 53)"
      using 1 by (intro mult_right_mono) simp_all
    finally show ?thesis by simp
  next
    case 2
    then have "fl (real_of_int t / 10) \<le> 0" by (intro fl_nonpos) simp
    then show ?thesis by simp
  qed
  then show ?thesis using False by simp
qed

lemma monthly_sales_nonzero: "sold \<noteq> 0 \<Longrightarrow> fl (fl (real_of_int sold) / 3) \<noteq> 0"
  by (simp add: fl_zero_iff)

lemma inventory_in_tenths:
  "sold \<noteq> 0 \<Longrightarrow>
     calculate_inventory_months active sold = fl (real_of_int (inventory_tenths active sold) / 10)"
  by (simp add: calculate_inventory_months_def monthly_sales_nonzero Let_def round_ndigits_def
      inventory_tenths_def double_quotient_def)

subsection \<open>Three pairs of counts\<close>

lemma fl_4: "fl 4 = 4" using fl_small_int[of 4 50] by simp

lemma fl_20: "fl 20 = 20" using fl_small_int[of 20 48] by simp

lemma fl_60: "fl 60 = 60" using fl_small_int[of 60 47] by simp

lemma fl_100: "fl 100 = 100" using fl_small_int[of 100 46] by simp

lemma fl_241: "fl 241 = 241" using fl_small_int[of 241 45] by simp

lemma fl_401: "fl 401 = 401" using fl_small_int[of 401 44] by simp

lemma third_of_4: "fl (4 / 3) = 6004799503160661 / 2 ^ 52"
  by (subst fl_scaled[where k = 52]) (simp_all add: py_round_def Let_def)

lemma quotient_20_4: "double_quotient 20 4 = 15"
proof -
  have "fl (20 / (6004799503160661 / 2 ^ 52)) = 15"
    by (subst fl_scaled[where k = 49]) (simp_all add: py_round_def Let_def)
  then show ?thesis
    by (simp add: double_quotient_def fl_4 fl_20 third_of_4)
qed

lemma tenths_20_4: "inventory_tenths 20 4 = 150"
  by (simp add: inventory_tenths_def quotient_20_4 py_round_def)

lemma third_of_100: "fl (100 / 3) = 4691249611844267 / 2 ^ 47"
  by (subst fl_scaled[where k = 47]) (simp_all add: py_round_def Let_def)

lemma quotient_401_100: "double_quotient 401 100 = 6772287939658383 / 2 ^ 49"
proof -
  have "fl (401 / (4691249611844267 / 2 ^ 47)) = 6772287939658383 / 2 ^ 49"
    by (subst fl_scaled[where k = 49]) (simp_all add: py_round_def Let_def)
  then show ?thesis
    by (simp add: double_quotient_def fl_100 fl_401 third_of_100)
qed

lemma tenths_401_100: "inventory_tenths 401 100 = 120"
  by (simp add: inventory_tenths_def quotient_401_100 py_round_def Let_def)

text \<open>
  With 241 active listings and 60 sales the quotient is 12.05 over the reals; the double
  nearest to it lies above, so the inventory is 12.1 months and the status is cold.
\<close>

lemma third_of_60: "fl (60 / 3) = 20"
  using fl_20 by simp

lemma quotient_241_60: "double_quotient 241 60 = 6783546938726810 / 2 ^ 49"
proof -
  have "fl (241 / 20) = 6783546938726810 / 2 ^ 49"
    by (subst fl_scaled[where k = 49]) (simp_all add: py_round_def Let_def)
  then show ?thesis
    using third_of_60 by (simp add: double_quotient_def fl_60 fl_241)
qed

lemma tenths_241_60: "inventory_tenths 241 60 = 121"
  by (simp add: inventory_tenths_def quotient_241_60 py_round_def Let_def)

lemma status_241_60: "determine_market_status (calculate_inventory_months 241 60) 0 0 = ''cold''"
proof -
  have "calculate_inventory_months 241 60 = fl (121 / 10)"
    using inventory_in_tenths[of 60 241] by (simp add: tenths_241_60)
  moreover have "12 < fl (real_of_int 121 / 10)" by (simp only: tenths_above_12)
  ultimately show ?thesis by (simp add: determine_market_status_def)
qed

subsection \<open>The status\<close>

text \<open>
  C4, as stated, takes the status from the quotient \<open>active / (sold / 3)\<close> itself.  With 401
  active listings and 100 sales the quotient is 12.03, above 12, which is cold on the
  ladder; the code compares the quotient rounded to one decimal, 12.0, and says stable.
\<close>

theorem market_status_raw_inventory_counterexample:
  "spec_market_status (spec_inventory 401 100) 0 = ''cold'' \<and>
   determine_market_status (calculate_inventory_months 401 100) 0 0 = ''stable''"
proof -
  have "calculate_inventory_months 401 100 = fl 12"
    using inventory_in_tenths[of 100 401] by (simp add: tenths_401_100)
  then show ?thesis
    by (simp add: fl_12 determine_market_status_def spec_market_status_def spec_inventory_def)
qed

text \<open>
  C4, amended.  For counts with at least one sale, the inventory that the code computes is
  the double nearest to a whole number of tenths of a month: the tenths nearest to the
  quotient \<open>active / (sold / 3.0)\<close> as doubles give it, a tie going to the even number.
  The status follows the ladder on these tenths (more than 120 cold, from 60 stable, else
  overheated when the price change is above 15, else growing), and the change of the days
  on market has no influence.  With 20 active listings and 4 sales the inventory is 15.0
  months and the status is cold.
\<close>

theorem market_status_from_rounded_inventory:
  assumes "sold \<noteq> 0"
  shows "calculate_inventory_months active sold = fl (real_of_int (inventory_tenths active sold) / 10) \<and>
         determine_market_status (calculate_inventory_months active sold) price_change dom_change =
           status_from_tenths (inventory_tenths active sold) price_change"
proof -
  let ?t = "inventory_tenths active sold"
  have i: "calculate_inventory_months active sold = fl (real_of_int ?t / 10)"
    by (rule inventory_in_tenths[OF assms])
  have "determine_market_status (fl (real_of_int ?t / 10)) price_change dom_change =
          status_from_tenths ?t price_change"
    unfolding determine_market_status_def status_from_tenths_def
    by (simp only: tenths_above_12 tenths_from_6)
  then show ?thesis using i by simp
qed

theorem market_status_from_rounded_inventory_witness:
  "(4::int) \<noteq> 0 \<and> inventory_tenths 20 4 = 150 \<and>
   determine_market_status (calculate_inventory_months 20 4) 0 0 = ''cold''"
proof -
  have n: "(4::int) \<noteq> 0" by simp
  have "determine_market_status (calculate_inventory_months 20 4) 0 0 =
          status_from_tenths (inventory_tenths 20 4) 0"
    using market_status_from_rounded_inventory[OF n, of 20 0 0] by (rule conjunct2)
  then show ?thesis
    by (simp add: tenths_20_4 status_from_tenths_def)
qed

section \<open>Results on the land scorer\<close>

subsection \<open>Scoring never fails\<close>

lemma score_price_opportunity_value:
  "score_price_opportunity l a = Inr (if a = 0 then 0 else spec_price_score (l / a))"
  by (simp add: score_price_opportunity_def py_div_def spec_price_score_def)

lemma score_zone_color_table: "score_zone_color c = spec_zone_score c"
  by (simp add: score_zone_color_def spec_zone_score_def)

lemma score_market_heat_table: "score_market_heat c = spec_market_score c"
  by (simp add: score_market_heat_def spec_market_score_def)

lemma calculate_land_score_value:
  "calculate_land_score cfg zc ms avg l n =
     Inr (py_round (weighted_total cfg (spec_zone_score zc) (spec_market_score ms)
            (if avg = 0 then 0 else spec_price_score (l / avg)) (spec_activity_score n)))"
  by (simp add: calculate_land_score_def score_price_opportunity_value weighted_total_def
      score_zone_color_table score_market_heat_table spec_activity_score_def Let_def)

lemma avg_nearby_no_price:
  "\<forall>p \<in> set ps. \<not> truthy (price_per_sqft p) \<Longrightarrow> calculate_avg_nearby_price_sqft ps = 0"
proof -
  assume "\<forall>p \<in> set ps. \<not> truthy (price_per_sqft p)"
  then have "filter (\<lambda>p. truthy (price_per_sqft p)) ps = []"
    by (simp add: filter_empty_conv)
  then show ?thesis
    by (simp add: calculate_avg_nearby_price_sqft_def truthy_values_def)
qed

text \<open>
  C10. The price scoring is total: \<open>score_price_opportunity\<close> returns a score for every
  pair of inputs and returns 0 when the nearby average is 0, without dividing;
  \<open>calculate_avg_nearby_price_sqft\<close> returns 0 for a list in which no property has a
  usable price per area; hence the whole score never raises.
\<close>

theorem price_scoring_total:
  "(\<exists>n. score_price_opportunity land_price_sqft avg = Inr n) \<and>
   score_price_opportunity land_price_sqft 0 = Inr 0 \<and>
   ((\<forall>p \<in> set ps. price_per_sqft p = None) \<longrightarrow> calculate_avg_nearby_price_sqft ps = 0) \<and>
   ((\<forall>p \<in> set ps. \<not> truthy (price_per_sqft p)) \<longrightarrow> calculate_avg_nearby_price_sqft ps = 0) \<and>
   (\<exists>n. calculate_land_score cfg zc ms (calculate_avg_nearby_price_sqft ps) land_price_sqft k = Inr n)"
proof -
  have "calculate_avg_nearby_price_sqft ps = 0" if "\<forall>p \<in> set ps. price_per_sqft p = None"
    using that by (intro avg_nearby_no_price) (simp add: truthy_def)
  then show ?thesis
    using avg_nearby_no_price[of ps]
    by (simp add: score_price_opportunity_value calculate_land_score_value)
qed

theorem price_scoring_total_witness:
  "price_per_sqft sample_parcel = None \<and>
   calculate_avg_nearby_price_sqft [sample_parcel] = 0 \<and>
   score_price_opportunity (80000 / 43560) (calculate_avg_nearby_price_sqft [sample_parcel]) = Inr 0"
proof -
  have p: "price_per_sqft sample_parcel = None"
    by (simp add: sample_parcel_def)
  then have none: "\<forall>p \<in> set [sample_parcel]. price_per_sqft p = None"
    by simp
  have avg: "calculate_avg_nearby_price_sqft [sample_parcel] = 0"
    using price_scoring_total [of "80000 / 43560" 0 "[sample_parcel]" sample_config "''green''" "''growing''" 1]
      none by blast
  have "score_price_opportunity (80000 / 43560) 0 = Inr 0"
    using price_scoring_total [of "80000 / 43560" 0 "[sample_parcel]" sample_config "''green''" "''growing''" 1]
    by blast
  then show ?thesis
    using p avg by (simp only: simp_thms)
qed

subsection \<open>From the filters on\<close>





subsection \<open>The whole function\<close>

lemma market_status_unreadable: "MarketHeatZone_getattr m ''market_status'' = Inl AttributeError"
  by (simp add: MarketHeatZone_getattr_def)

text \<open>
  \<open>evaluate_land_opportunity\<close> in one step: nothing for a parcel without a coordinate, a
  street row or a market row, and \<open>AttributeError\<close> for every other parcel.
\<close>

lemma evaluate_cases:
  "evaluate_land_opportunity cfg now utcnow db p =
     (if truthy (latitude p) \<and> truthy (longitude p) \<and>
         street_zone_of db p \<noteq> None \<and> market_heat_of db p \<noteq> None
      then Inl AttributeError else Inr (None, db))"
  by (simp add: evaluate_land_opportunity_def market_status_unreadable Let_def
      street_zone_of_def market_heat_of_def split: option.splits)

subsection \<open>The sample parcel\<close>

lemma haversine_distance_same: "haversine_distance la lo la lo = 0"
  by (simp add: haversine_distance_def haversine_a_def radians_def atan2_def Let_def)

lemma sample_nearby:
  "get_nearby_properties sample_db (days 1000) 35.6 (- 82.55) 5 = [sample_house]"
  by (simp add: get_nearby_properties_def sample_db_def sample_house_def
      on_or_after_def days_def haversine_distance_same del: not_None_eq)

lemma sample_avg: "calculate_avg_nearby_price_sqft [sample_house] = 300"
  by (simp add: calculate_avg_nearby_price_sqft_def truthy_values_def truthy_def sample_house_def
      np_mean_def)

lemma sample_recent: "count_recent_sales (days 1000) [sample_house] = 1"
  by (simp add: count_recent_sales_def sample_house_def on_or_after_def days_def)

text \<open>
  A parcel at the place of the sample parcel, with its lot, passes the tests from line 265
  on as soon as its price does, for the colour and the status of the sample rows.
\<close>

lemma sample_passes:
  assumes "latitude p = Some 35.6" "longitude p = Some (- 82.55)" "lot_size p = Some 1"
  shows "passes_from_filters sample_config (days 1000) sample_db p ''green'' (PyStr ''growing'') \<longleftrightarrow>
           truthy (land_price p) \<and> the (land_price p) \<le> 150000"
  unfolding passes_from_filters_def assms option.sel sample_nearby Let_def sample_avg sample_recent
  by (simp add: sample_config_def truthy_def)

lemma sample_rows:
  assumes "street_name p = ''Main Street''" "city p = ''Asheville''" "zip_code p = ''28801''"
  shows "street_zone_of sample_db p = Some (hd (street_analysis sample_db))"
    and "market_heat_of sample_db p = Some (hd (market_heat_zones sample_db))"
  by (simp_all add: street_zone_of_def market_heat_of_def sample_db_def assms)

lemma sample_colour_and_status:
  "sa_color (hd (street_analysis sample_db)) = ''green''"
  "mh_status (hd (market_heat_zones sample_db)) = ''growing''"
  by (simp_all add: sample_db_def)

subsection \<open>A parcel that fails a filter\<close>

text \<open>
  C1.  What the code does where the claim expects a rejection: a parcel with a coordinate
  whose street and postal area both have a row never comes to the filters on price, lot,
  colour, status and surroundings.  Line 260 reads \<open>market_heat.market_status\<close>, the class
  has the column under the name \<open>status\<close>, and the call raises \<open>AttributeError\<close>.  Every
  other parcel is rejected with the repository as it was.  So a parcel priced above the
  maximum makes the call raise instead of returning \<open>None\<close>.
\<close>

theorem filter_failure_raises:
  "(truthy (latitude p) \<and> truthy (longitude p) \<and>
    street_zone_of db p \<noteq> None \<and> market_heat_of db p \<noteq> None \<longrightarrow>
      evaluate_land_opportunity cfg now utcnow db p = Inl AttributeError) \<and>
   (\<not> (truthy (latitude p) \<and> truthy (longitude p) \<and>
       street_zone_of db p \<noteq> None \<and> market_heat_of db p \<noteq> None) \<longrightarrow>
      evaluate_land_opportunity cfg now utcnow db p = Inr (None, db))"
  by (simp add: evaluate_cases)

theorem filter_failure_raises_witness:
  "truthy (latitude pricey_parcel) \<and> truthy (longitude pricey_parcel) \<and>
   street_zone_of sample_db pricey_parcel \<noteq> None \<and> market_heat_of sample_db pricey_parcel \<noteq> None \<and>
   land_price pricey_parcel = Some 200000 \<and> LAND_FILTER_max_price sample_config = 150000 \<and>
   evaluate_land_opportunity sample_config (days 1000) (days 1000) sample_db pricey_parcel
     = Inl AttributeError"
proof -
  have c: "truthy (latitude pricey_parcel)" "truthy (longitude pricey_parcel)"
    by (simp_all add: pricey_parcel_def sample_parcel_def truthy_def)
  have r: "street_zone_of sample_db pricey_parcel \<noteq> None"
    "market_heat_of sample_db pricey_parcel \<noteq> None"
    using sample_rows[of pricey_parcel] by (simp_all add: pricey_parcel_def sample_parcel_def)
  have p: "land_price pricey_parcel = Some 200000" "LAND_FILTER_max_price sample_config = 150000"
    by (simp_all add: land_price_def py_or_def truthy_def pricey_parcel_def sample_parcel_def
        sample_config_def)
  have "evaluate_land_opportunity sample_config (days 1000) (days 1000) sample_db pricey_parcel
          = Inl AttributeError"
    using filter_failure_raises[of pricey_parcel sample_db sample_config "days 1000" "days 1000"] c r
    by blast
  then show ?thesis using c r p by (simp only: simp_thms)
qed

subsection \<open>A parcel that passes every filter\<close>

text \<open>
  C5.  What the code does where the claim expects a score: for every parcel that has a
  coordinate, a street row and a market row, and that passes the filters on price, lot,
  colour, status and surroundings with the colour and the status of these rows, the call
  raises \<open>AttributeError\<close> at line 260.  No score and no level come out of it.
\<close>

theorem passing_parcel_raises:
  assumes "truthy (latitude p)" "truthy (longitude p)"
    and "street_zone_of db p = Some s" "market_heat_of db p = Some m"
    and "passes_from_filters cfg now db p (sa_color s) (PyStr (mh_status m))"
  shows "evaluate_land_opportunity cfg now utcnow db p = Inl AttributeError"
  using assms(1-4) by (simp add: evaluate_cases)

theorem passing_parcel_raises_witness:
  "truthy (latitude sample_parcel) \<and> truthy (longitude sample_parcel) \<and>
   street_zone_of sample_db sample_parcel = Some (hd (street_analysis sample_db)) \<and>
   market_heat_of sample_db sample_parcel = Some (hd (market_heat_zones sample_db)) \<and>
   passes_from_filters sample_config (days 1000) sample_db sample_parcel ''green'' (PyStr ''growing'') \<and>
   evaluate_land_opportunity sample_config (days 1000) (days 1000) sample_db sample_parcel
     = Inl AttributeError"
proof -
  have c: "truthy (latitude sample_parcel)" "truthy (longitude sample_parcel)"
    by (simp_all add: sample_parcel_def truthy_def)
  have r: "street_zone_of sample_db sample_parcel = Some (hd (street_analysis sample_db))"
    "market_heat_of sample_db sample_parcel = Some (hd (market_heat_zones sample_db))"
    using sample_rows[of sample_parcel] by (simp_all add: sample_parcel_def)
  have f: "passes_from_filters sample_config (days 1000) sample_db sample_parcel ''green'' (PyStr ''growing'')"
    by (subst sample_passes)
       (simp_all add: sample_parcel_def land_price_def py_or_def truthy_def)
  have f': "passes_from_filters sample_config (days 1000) sample_db sample_parcel
              (sa_color (hd (street_analysis sample_db)))
              (PyStr (mh_status (hd (market_heat_zones sample_db))))"
    using f by (simp only: sample_colour_and_status)
  have "evaluate_land_opportunity sample_config (days 1000) (days 1000) sample_db sample_parcel
          = Inl AttributeError"
    by (rule passing_parcel_raises[OF c r f'])
  then show ?thesis using c r f by (simp only: simp_thms)
qed

subsection \<open>The price filter\<close>




section \<open>The distance formula\<close>

subsection \<open>Bounds on cosine and on pi\<close>

lemma cos_taylor_bound:
  fixes x :: real
  assumes "0 < x" "0 < n"
  shows "\<bar>cos x - (\<Sum>m<n. cos_coeff m * x ^ m)\<bar> \<le> x ^ n / fact n"
proof -
  obtain t where "cos x = (\<Sum>m<n. cos_coeff m * x ^ m) + (cos (t + 1/2 * real n * pi) / fact n) * x ^ n"
    using Maclaurin_cos_expansion2[OF assms] by blast
  then have "\<bar>cos x - (\<Sum>m<n. cos_coeff m * x ^ m)\<bar> = \<bar>cos (t + 1/2 * real n * pi)\<bar> * (x ^ n / fact n)"
    using assms by (simp add: abs_mult)
  also have "\<dots> \<le> 1 * (x ^ n / fact n)"
    using assms by (intro mult_right_mono) (auto simp: abs_cos_le_one)
  finally show ?thesis by simp
qed

lemma cos_coeff_values:
  "cos_coeff (Suc 0) = 0" "cos_coeff 2 = - 1 / 2" "cos_coeff 3 = 0" "cos_coeff 4 = 1 / 24"
  "cos_coeff 5 = 0" "cos_coeff 6 = - 1 / 720" "cos_coeff 7 = 0" "cos_coeff 8 = 1 / 40320"
  "cos_coeff 9 = 0"
  by (simp_all add: cos_coeff_def fact_numeral)

lemma cos_sum_8:
  "(\<Sum>m<8. cos_coeff m * x ^ m) = 1 - x^2 / 2 + x^4 / 24 - x^6 / 720" for x :: real
proof -
  have "{..<8::nat} = {0, 1, 2, 3, 4, 5, 6, 7}" by auto
  then show ?thesis by (simp add: cos_coeff_values)
qed

lemma cos_sum_10:
  "(\<Sum>m<10. cos_coeff m * x ^ m) = 1 - x^2 / 2 + x^4 / 24 - x^6 / 720 + x^8 / 40320" for x :: real
proof -
  have "{..<10::nat} = {0, 1, 2, 3, 4, 5, 6, 7, 8, 9}" by auto
  then show ?thesis by (simp add: cos_coeff_values)
qed

lemma cos_upper:
  fixes x :: real assumes "0 < x"
  shows "cos x \<le> 1 - x^2 / 2 + x^4 / 24 - x^6 / 720 + x^8 / 40320"
proof -
  have "fact 8 = (40320::real)" by (simp add: fact_numeral)
  then have "\<bar>cos x - (1 - x^2 / 2 + x^4 / 24 - x^6 / 720)\<bar> \<le> x ^ 8 / 40320"
    using cos_taylor_bound[OF assms, of 8] by (simp only: cos_sum_8)
  then show ?thesis by linarith
qed

lemma cos_lower:
  fixes x :: real assumes "0 < x"
  shows "1 - x^2 / 2 + x^4 / 24 - x^6 / 720 + x^8 / 40320 - x^10 / 3628800 \<le> cos x"
proof -
  have "fact 10 = (3628800::real)" by (simp add: fact_numeral)
  then have "\<bar>cos x - (1 - x^2 / 2 + x^4 / 24 - x^6 / 720 + x^8 / 40320)\<bar> \<le> x ^ 10 / 3628800"
    using cos_taylor_bound[OF assms, of 10] by (simp only: cos_sum_10)
  then show ?thesis by linarith
qed

lemma cos_157_pos: "0 < cos (157 / 100 :: real)"
proof -
  have "(0::real) < 1 - (157/100)^2 / 2 + (157/100)^4 / 24 - (157/100)^6 / 720 + (157/100)^8 / 40320 - (157/100)^10 / 3628800"
    by (simp add: power_divide)
  then show ?thesis using cos_lower[of "157/100"] by simp
qed

lemma cos_1575_neg: "cos (1575 / 1000 :: real) < 0"
proof -
  have "1 - (1575/1000)^2 / 2 + (1575/1000)^4 / 24 - (1575/1000)^6 / 720 + (1575/1000)^8 / 40320 < (0::real)"
    by (simp add: power_divide)
  then show ?thesis using cos_upper[of "1575/1000"] by simp
qed

lemma pi_gt_314: "314 / 100 < pi"
proof (rule ccontr)
  assume "\<not> 314 / 100 < pi"
  then have le: "pi / 2 \<le> 157 / 100" by simp
  have "cos (157 / 100) \<le> cos (pi / 2)"
    using le pi_ge_two by (intro cos_monotone_0_pi_le) auto
  then show False using cos_157_pos by simp
qed

lemma pi_lt_315: "pi < 315 / 100"
proof (rule ccontr)
  assume "\<not> pi < 315 / 100"
  then have "1575 / 1000 \<le> pi / 2" by simp
  then have "0 \<le> cos (1575 / 1000 :: real)"
    by (intro cos_ge_zero) auto
  then show False using cos_1575_neg by simp
qed

subsection \<open>The half angle\<close>

lemma sin_cubic_lower:
  fixes t :: real assumes "0 \<le> t" shows "t - t ^ 3 / 6 \<le> sin t"
proof -
  have s: "{..<3::nat} = {0, 1, 2}" by auto
  have c: "sin_coeff 0 = 0" "sin_coeff (Suc 0) = 1" "sin_coeff 2 = 0"
    by (simp_all add: sin_coeff_def)
  have "(\<Sum>m<3. sin_coeff m * t ^ m) = t"
    using s by (simp add: c)
  moreover have "inverse (fact 3) * \<bar>t\<bar> ^ 3 = t ^ 3 / 6"
    using assms by (simp add: fact_numeral)
  ultimately have "\<bar>sin t - t\<bar> \<le> t ^ 3 / 6"
    using Maclaurin_sin_bound[of t 3] by simp
  then show ?thesis by linarith
qed

lemma product_of_two_le_squares:
  fixes u v :: real shows "2 * \<bar>u * v\<bar> \<le> u\<^sup>2 + v\<^sup>2"
proof -
  have "0 \<le> (\<bar>u\<bar> - \<bar>v\<bar>)\<^sup>2" by simp
  then show ?thesis by (simp add: power2_diff abs_mult)
qed

lemma sin_squared_half: "(sin (x / 2))\<^sup>2 = (1 - cos x) / 2" for x :: real
  using cos_double_sin[of "x / 2"] by simp

lemma haversine_a_as_dot:
  "haversine_a p1 p2 (p2 - p1) dl = (1 - (sin p1 * sin p2 + cos p1 * cos p2 * cos dl)) / 2"
  by (simp add: haversine_a_def sin_squared_half cos_diff field_simps)

lemma dot_bounded:
  fixes p1 p2 dl :: real
  shows "\<bar>sin p1 * sin p2 + cos p1 * cos p2 * cos dl\<bar> \<le> 1"
proof -
  have "\<bar>cos p1 * cos p2 * cos dl\<bar> = \<bar>cos p1 * cos p2\<bar> * \<bar>cos dl\<bar>"
    by (simp add: abs_mult)
  also have "\<dots> \<le> \<bar>cos p1 * cos p2\<bar> * 1"
    by (intro mult_left_mono) (auto simp: abs_cos_le_one)
  finally have c: "\<bar>cos p1 * cos p2 * cos dl\<bar> \<le> \<bar>cos p1 * cos p2\<bar>" by simp
  have "2 * \<bar>sin p1 * sin p2\<bar> + 2 * \<bar>cos p1 * cos p2\<bar>
          \<le> ((sin p1)\<^sup>2 + (cos p1)\<^sup>2) + ((sin p2)\<^sup>2 + (cos p2)\<^sup>2)"
    using product_of_two_le_squares[of "sin p1" "sin p2"]
      product_of_two_le_squares[of "cos p1" "cos p2"] by linarith
  then have "\<bar>sin p1 * sin p2\<bar> + \<bar>cos p1 * cos p2\<bar> \<le> 1" by simp
  then show ?thesis using c by linarith
qed

lemma haversine_a_range:
  "0 \<le> haversine_a p1 p2 (p2 - p1) dl \<and> haversine_a p1 p2 (p2 - p1) dl \<le> 1"
  using dot_bounded[of p1 p2 dl] unfolding haversine_a_as_dot by (simp add: abs_le_iff)

lemma atan2_half_angle:
  assumes "0 \<le> a" "a \<le> 1"
  shows "0 \<le> atan2 (sqrt a) (sqrt (1 - a)) \<and> atan2 (sqrt a) (sqrt (1 - a)) \<le> pi / 2 \<and>
         sin (atan2 (sqrt a) (sqrt (1 - a))) = sqrt a"
proof (cases "a = 1")
  case True
  then show ?thesis by (simp add: atan2_def)
next
  case False
  then have lt: "a < 1" using assms by simp
  then have pos: "0 < sqrt (1 - a)" by simp
  let ?x = "sqrt a / sqrt (1 - a)"
  have at: "atan2 (sqrt a) (sqrt (1 - a)) = arctan ?x"
    using pos by (simp add: atan2_def)
  have x0: "0 \<le> ?x" using assms pos by simp
  have "1 + ?x\<^sup>2 = 1 / (1 - a)"
    using assms lt by (simp add: power_divide field_simps)
  then have "sqrt (1 + ?x\<^sup>2) = 1 / sqrt (1 - a)"
    by (simp add: real_sqrt_divide)
  then have "sin (arctan ?x) = sqrt a"
    using pos by (simp add: sin_arctan)
  moreover have "0 \<le> arctan ?x" using x0 by (simp add: zero_le_arctan_iff)
  moreover have "arctan ?x \<le> pi / 2" using arctan_ubound[of ?x] by simp
  ultimately show ?thesis unfolding at by simp
qed

text \<open>The distance in terms of the half angle.\<close>

lemma haversine_distance_half_angle:
  "haversine_distance lat1 lon1 lat2 lon2 =
     7918 * atan2 (sqrt (haversine_a (radians lat1) (radians lat2) (radians lat2 - radians lat1) (radians (lon2 - lon1))))
                  (sqrt (1 - haversine_a (radians lat1) (radians lat2) (radians lat2 - radians lat1) (radians (lon2 - lon1))))"
proof -
  have "radians (lat2 - lat1) = radians lat2 - radians lat1"
    by (simp add: radians_def field_simps)
  then show ?thesis by (simp add: haversine_distance_def Let_def)
qed

lemma calculate_distance_eq: "calculate_distance lat1 lon1 lat2 lon2 = haversine_distance lat1 lon1 lat2 lon2"
proof -
  have "radians lon2 - radians lon1 = radians (lon2 - lon1)"
    by (simp add: radians_def field_simps)
  then show ?thesis
    by (simp add: calculate_distance_def haversine_distance_half_angle Let_def)
qed

text \<open>The half angle of a distance: between 0 and a right angle, with the sine given.\<close>

lemma haversine_half_angle:
  obtains h where "haversine_distance lat1 lon1 lat2 lon2 = 7918 * h" "0 \<le> h" "h \<le> pi / 2"
    "(sin h)\<^sup>2 = haversine_a (radians lat1) (radians lat2) (radians lat2 - radians lat1) (radians (lon2 - lon1))"
proof -
  let ?a = "haversine_a (radians lat1) (radians lat2) (radians lat2 - radians lat1) (radians (lon2 - lon1))"
  let ?h = "atan2 (sqrt ?a) (sqrt (1 - ?a))"
  have r: "0 \<le> ?a" "?a \<le> 1" using haversine_a_range by blast+
  have "(sin ?h)\<^sup>2 = ?a"
    using atan2_half_angle[OF r] r by simp
  then show ?thesis
    using that[of ?h] atan2_half_angle[OF r] haversine_distance_half_angle by blast
qed

lemma half_angle_small:
  fixes h t :: real
  assumes "0 \<le> h" "h \<le> pi / 2" "0 \<le> t" "t \<le> 1" "(sin h)\<^sup>2 \<le> (t - t ^ 3 / 6)\<^sup>2"
  shows "h \<le> t"
proof (rule ccontr)
  assume "\<not> h \<le> t"
  then have lt: "t < h" by simp
  have t2: "t \<le> pi / 2" using assms(4) pi_ge_two by linarith
  have "sin t < sin h"
    using lt assms t2 by (subst sin_mono_less_eq) auto
  moreover have "t - t ^ 3 / 6 \<le> sin t" by (rule sin_cubic_lower[OF assms(3)])
  moreover have "0 \<le> t - t ^ 3 / 6"
  proof -
    have "t * t \<le> 1" using assms(3,4) by (intro mult_le_one) auto
    then have "t * (t * t) \<le> t * 1" using assms(3) by (intro mult_left_mono) auto
    then have "t ^ 3 \<le> t" by (simp add: power3_eq_cube mult.assoc)
    then show ?thesis using assms(3) by linarith
  qed
  ultimately have "t - t ^ 3 / 6 < sin h" "0 \<le> t - t ^ 3 / 6" by linarith+
  then have "(t - t ^ 3 / 6)\<^sup>2 < (sin h)\<^sup>2"
    by (intro power_strict_mono) auto
  then show False using assms(5) by simp
qed

lemma half_angle_large:
  fixes h th :: real
  assumes "0 \<le> h" "h \<le> pi / 2" "\<bar>th\<bar> \<le> pi / 2" "(sin th)\<^sup>2 \<le> (sin h)\<^sup>2"
  shows "\<bar>th\<bar> \<le> h"
proof (rule ccontr)
  assume "\<not> \<bar>th\<bar> \<le> h"
  then have lt: "h < \<bar>th\<bar>" by simp
  have b: "- (pi / 2) \<le> h" "- (pi / 2) \<le> \<bar>th\<bar>"
    using assms(1) pi_ge_zero by linarith+
  have "sin h < sin \<bar>th\<bar>"
    using sin_mono_less_eq[OF b(1) assms(2) b(2) assms(3)] lt by blast
  moreover have "0 \<le> sin h"
    using assms(1,2) pi_ge_zero by (intro sin_ge_zero) linarith+
  ultimately have "(sin h)\<^sup>2 < (sin \<bar>th\<bar>)\<^sup>2"
    by (intro power_strict_mono) simp_all
  moreover have "(sin \<bar>th\<bar>)\<^sup>2 = (sin th)\<^sup>2"
  proof (cases "0 \<le> th")
    case True then show ?thesis by simp
  next
    case False
    then have "\<bar>th\<bar> = - th" by simp
    then show ?thesis by (simp only: sin_minus power2_minus)
  qed
  ultimately show False using assms(4) by linarith
qed

lemma distance_at_least_meridian:
  assumes "0 \<le> cos (radians lat1) * cos (radians lat2)" "\<bar>lat2 - lat1\<bar> \<le> 180"
  shows "3959 * \<bar>radians (lat2 - lat1)\<bar> \<le> haversine_distance lat1 lon1 lat2 lon2"
proof -
  obtain h where h: "haversine_distance lat1 lon1 lat2 lon2 = 7918 * h" "0 \<le> h" "h \<le> pi / 2"
    "(sin h)\<^sup>2 = haversine_a (radians lat1) (radians lat2) (radians lat2 - radians lat1) (radians (lon2 - lon1))"
    by (rule haversine_half_angle)
  let ?th = "(radians lat2 - radians lat1) / 2"
  have d: "radians lat2 - radians lat1 = radians (lat2 - lat1)"
    by (simp add: radians_def field_simps)
  have "\<bar>radians (lat2 - lat1)\<bar> = \<bar>lat2 - lat1\<bar> * pi / 180"
    by (simp add: radians_def abs_mult)
  also have "\<dots> \<le> 180 * pi / 180"
    using assms(2) by (intro divide_right_mono mult_right_mono) auto
  finally have th: "\<bar>?th\<bar> \<le> pi / 2" unfolding d by simp
  have "0 \<le> cos (radians lat1) * cos (radians lat2) * (sin (radians (lon2 - lon1) / 2))\<^sup>2"
    using assms(1) by simp
  then have "(sin ?th)\<^sup>2 \<le> (sin h)\<^sup>2"
    unfolding h(4) haversine_a_def by simp
  then have "\<bar>?th\<bar> \<le> h"
    by (rule half_angle_large[OF h(2,3) th])
  then show ?thesis unfolding h(1) d by simp
qed

lemma distance_on_meridian:
  assumes "\<bar>lat2 - lat1\<bar> \<le> 180"
  shows "haversine_distance lat1 lon lat2 lon = 3959 * \<bar>radians (lat2 - lat1)\<bar>"
proof -
  obtain h where h: "haversine_distance lat1 lon lat2 lon = 7918 * h" "0 \<le> h" "h \<le> pi / 2"
    "(sin h)\<^sup>2 = haversine_a (radians lat1) (radians lat2) (radians lat2 - radians lat1) (radians (lon - lon))"
    by (rule haversine_half_angle)
  let ?th = "(radians lat2 - radians lat1) / 2"
  have d: "radians lat2 - radians lat1 = radians (lat2 - lat1)"
    by (simp add: radians_def field_simps)
  have "\<bar>radians (lat2 - lat1)\<bar> = \<bar>lat2 - lat1\<bar> * pi / 180"
    by (simp add: radians_def abs_mult)
  also have "\<dots> \<le> 180 * pi / 180"
    using assms by (intro divide_right_mono mult_right_mono) auto
  finally have th: "\<bar>?th\<bar> \<le> pi / 2" unfolding d by simp
  have eq: "(sin h)\<^sup>2 = (sin ?th)\<^sup>2"
    unfolding h(4) haversine_a_def by (simp add: radians_def)
  have "(sin \<bar>?th\<bar>)\<^sup>2 = (sin ?th)\<^sup>2"
    by (cases "0 \<le> ?th") (simp_all add: abs_if)
  then have le: "(sin h)\<^sup>2 \<le> (sin \<bar>?th\<bar>)\<^sup>2" using eq by simp
  have habs: "\<bar>h\<bar> \<le> pi / 2" using h(2,3) by simp
  have "0 \<le> \<bar>?th\<bar>" by simp
  then have "\<bar>h\<bar> \<le> \<bar>?th\<bar>"
    using th habs le by (rule half_angle_large)
  moreover have "(sin ?th)\<^sup>2 \<le> (sin h)\<^sup>2" using eq by simp
  then have "\<bar>?th\<bar> \<le> h"
    by (rule half_angle_large[OF h(2,3) th])
  ultimately have "h = \<bar>?th\<bar>" using h(2) by linarith
  then show ?thesis unfolding h(1) d by simp
qed

subsection \<open>Small displacements\<close>

lemma sin_abs_squared: "(sin \<bar>x\<bar>)\<^sup>2 = (sin x)\<^sup>2" for x :: real
proof (cases "0 \<le> x")
  case True then show ?thesis by simp
next
  case False
  then have "\<bar>x\<bar> = - x" by simp
  then show ?thesis by (simp only: sin_minus power2_minus)
qed

lemma sin_squared_le: "(sin x)\<^sup>2 \<le> x\<^sup>2" for x :: real
proof -
  have "\<bar>sin x\<bar> \<le> \<bar>x\<bar>" by (rule abs_sin_x_le_abs_x)
  then have "\<bar>sin x\<bar>\<^sup>2 \<le> \<bar>x\<bar>\<^sup>2" by (intro power_mono) simp_all
  then show ?thesis by simp
qed

lemma cos_product_le_one: "cos p * cos q * s\<^sup>2 \<le> s\<^sup>2" for p q s :: real
proof -
  have "\<bar>cos p * cos q\<bar> \<le> 1 * 1"
    unfolding abs_mult by (intro mult_mono) (auto simp: abs_cos_le_one)
  then have "cos p * cos q \<le> 1" by linarith
  then have "cos p * cos q * s\<^sup>2 \<le> 1 * s\<^sup>2"
    by (intro mult_right_mono) simp_all
  then show ?thesis by simp
qed

text \<open>A point at most 0.05 degrees away on each axis is less than five miles away.\<close>

lemma jitter_within_five_miles:
  assumes "\<bar>dx\<bar> \<le> 5 / 100" "\<bar>dy\<bar> \<le> 5 / 100"
  shows "haversine_distance clat clon (clat + dx) (clon + dy) \<le> 5"
proof -
  obtain h where h: "haversine_distance clat clon (clat + dx) (clon + dy) = 7918 * h" "0 \<le> h" "h \<le> pi / 2"
    "(sin h)\<^sup>2 = haversine_a (radians clat) (radians (clat + dx))
                     (radians (clat + dx) - radians clat) (radians (clon + dy - clon))"
    by (rule haversine_half_angle)
  have small: "\<bar>radians d / 2\<bar> \<le> 7 / 16000" if "\<bar>d\<bar> \<le> 5 / 100" for d
  proof -
    have "\<bar>radians d / 2\<bar> = \<bar>d\<bar> * pi / 360"
      by (simp add: radians_def abs_mult)
    also have "\<dots> \<le> (5 / 100) * (315 / 100) / 360"
      using that pi_lt_315 by (intro divide_right_mono mult_mono) auto
    finally show ?thesis by simp
  qed
  have sq: "(sin (radians d / 2))\<^sup>2 \<le> (7 / 16000)\<^sup>2" if "\<bar>d\<bar> \<le> 5 / 100" for d
  proof -
    have "(sin (radians d / 2))\<^sup>2 \<le> (radians d / 2)\<^sup>2" by (rule sin_squared_le)
    also have "\<dots> = \<bar>radians d / 2\<bar>\<^sup>2" by (simp only: power2_abs)
    also have "\<dots> \<le> (7 / 16000)\<^sup>2"
      using small[OF that] by (intro power_mono) simp_all
    finally show ?thesis .
  qed
  have dlat: "radians (clat + dx) - radians clat = radians dx"
    by (simp add: radians_def field_simps)
  have "(sin h)\<^sup>2 \<le> (sin (radians dx / 2))\<^sup>2 + (sin (radians dy / 2))\<^sup>2"
    unfolding h(4) haversine_a_def dlat
    using cos_product_le_one[of "radians clat" "radians (clat + dx)" "sin (radians dy / 2)"]
    by simp
  also have "\<dots> \<le> (7 / 16000)\<^sup>2 + (7 / 16000)\<^sup>2"
    using sq[OF assms(1)] sq[OF assms(2)] by linarith
  also have "\<dots> \<le> (5 / 7918 - (5 / 7918) ^ 3 / 6)\<^sup>2"
    by (simp add: power2_eq_square power3_eq_cube)
  finally have "h \<le> 5 / 7918"
    by (intro half_angle_small[OF h(2,3)]) simp_all
  then show ?thesis unfolding h(1) by simp
qed

lemma longitude_gap_small:
  fixes x h k2 mu rho :: real
  assumes le: "k2 * (sin x)\<^sup>2 \<le> (sin h)\<^sup>2"
    and h: "0 \<le> h" "h \<le> rho"
    and x: "\<bar>x\<bar> \<le> pi / 2"
    and mu: "0 < mu" "mu * rho \<le> 1"
    and gain: "1 \<le> k2 * (mu * (1 - (mu * rho)\<^sup>2 / 6))\<^sup>2"
  shows "\<bar>x\<bar> \<le> mu * h"
proof (rule ccontr)
  assume "\<not> \<bar>x\<bar> \<le> mu * h"
  then have lt: "mu * h < \<bar>x\<bar>" by simp
  define u where "u = mu * h"
  define q where "q = 1 - (mu * rho)\<^sup>2 / 6"
  have u0: "0 \<le> u" unfolding u_def using mu(1) h(1) by simp
  have "u \<le> mu * rho" unfolding u_def using mu(1) h(2) by simp
  then have u1: "u \<le> 1" using mu(2) by linarith
  have rho0: "0 \<le> mu * rho" using u0 \<open>u \<le> mu * rho\<close> by linarith
  have "(mu * rho)\<^sup>2 \<le> 1" using rho0 mu(2) by (simp add: power_le_one)
  then have q0: "0 < q" unfolding q_def by simp
  have "u\<^sup>2 \<le> (mu * rho)\<^sup>2"
    using u0 \<open>u \<le> mu * rho\<close> by (intro power_mono) simp_all
  then have "1 - u\<^sup>2 / 6 \<ge> q" unfolding q_def by simp
  then have "u * q \<le> u * (1 - u\<^sup>2 / 6)" using u0 by (intro mult_left_mono) simp_all
  also have "\<dots> = u - u ^ 3 / 6" by (simp add: power2_eq_square power3_eq_cube algebra_simps)
  also have "\<dots> \<le> sin u" by (rule sin_cubic_lower[OF u0])
  finally have uq: "u * q \<le> sin u" .
  have b: "- (pi / 2) \<le> u" "u \<le> pi / 2" "- (pi / 2) \<le> \<bar>x\<bar>"
    using u0 u1 pi_ge_two by linarith+
  have "sin u < sin \<bar>x\<bar>"
    using sin_mono_less_eq[OF b(1,2,3) x] lt unfolding u_def by blast
  then have "u * q < sin \<bar>x\<bar>" "0 \<le> u * q" using uq u0 q0 by simp_all
  then have "(u * q)\<^sup>2 < (sin \<bar>x\<bar>)\<^sup>2" by (intro power_strict_mono) simp_all
  then have s: "(u * q)\<^sup>2 < (sin x)\<^sup>2" by (simp only: sin_abs_squared)
  have k0: "0 < k2"
  proof (rule ccontr)
    assume "\<not> 0 < k2"
    then have "k2 * (mu * q)\<^sup>2 \<le> 0" by (simp add: mult_nonpos_nonneg)
    then show False using gain unfolding q_def by linarith
  qed
  have "h\<^sup>2 = 1 * h\<^sup>2" by simp
  also have "\<dots> \<le> k2 * (mu * q)\<^sup>2 * h\<^sup>2"
    using gain unfolding q_def by (intro mult_right_mono) simp_all
  also have "\<dots> = k2 * (u * q)\<^sup>2" unfolding u_def by (simp add: power_mult_distrib algebra_simps)
  also have "\<dots> < k2 * (sin x)\<^sup>2" using s k0 by simp
  finally have "h\<^sup>2 < (sin h)\<^sup>2" using le by linarith
  then show False using sin_squared_le[of h] by linarith
qed

lemma haversine_distance_nonneg: "0 \<le> haversine_distance lat1 lon1 lat2 lon2"
proof -
  obtain h where "haversine_distance lat1 lon1 lat2 lon2 = 7918 * h" "0 \<le> h"
    by (rule haversine_half_angle)
  then show ?thesis by simp
qed

lemma abs_radians: "\<bar>radians d\<bar> = \<bar>d\<bar> * pi / 180"
  by (simp add: radians_def abs_mult)

lemma cos_radians_lower:
  fixes d b :: real
  assumes "\<bar>d\<bar> \<le> b" "0 < b" "b \<le> 90"
  shows "1 - (b * 7 / 400)^2 / 2 + (b * 7 / 400)^4 / 24 - (b * 7 / 400)^6 / 720
           + (b * 7 / 400)^8 / 40320 - (b * 7 / 400)^10 / 3628800 \<le> cos (radians d)"
proof -
  let ?y = "b * 7 / 400"
  have "\<bar>radians d\<bar> = \<bar>d\<bar> * pi / 180" by (simp add: radians_def abs_mult)
  also have "\<dots> \<le> b * (315 / 100) / 180"
    using assms pi_lt_315 by (intro divide_right_mono mult_mono) auto
  also have "\<dots> = ?y" by simp
  finally have le: "\<bar>radians d\<bar> \<le> ?y" .
  have y: "0 < ?y" "?y \<le> pi" using assms pi_gt_314 by simp_all
  have "cos ?y \<le> cos \<bar>radians d\<bar>"
    using le y by (intro cos_monotone_0_pi_le) simp_all
  then have "cos ?y \<le> cos (radians d)" by simp
  then show ?thesis using cos_lower[OF y(1)] by linarith
qed

lemma cos_radians_nonneg: "\<bar>d\<bar> \<le> 90 \<Longrightarrow> 0 \<le> cos (radians d)"
proof -
  assume "\<bar>d\<bar> \<le> 90"
  then have "\<bar>radians d\<bar> \<le> 90 * pi / 180"
    unfolding abs_radians by (intro divide_right_mono mult_right_mono) auto
  then show ?thesis by (intro cos_ge_zero) (simp_all add: abs_le_iff)
qed

text \<open>
  Around a centre at most 36.5 degrees from the equator, and for a radius of at most 25
  miles, a point within the radius lies in the box.
\<close>

lemma within_radius_in_box:
  assumes lat: "\<bar>lat\<bar> \<le> 365 / 10"
    and r: "r \<le> 25"
    and plat: "\<bar>plat\<bar> \<le> 90"
    and plon: "\<bar>plon - lng\<bar> \<le> 180"
    and d: "haversine_distance lat lng plat plon \<le> r"
  shows "\<bar>plat - lat\<bar> \<le> r / 69 \<and> \<bar>plon - lng\<bar> \<le> r / 55"
proof -
  have r0: "0 \<le> r" using d haversine_distance_nonneg[of lat lng plat plon] by linarith
  have c1: "0 \<le> cos (radians lat)" using lat by (intro cos_radians_nonneg) simp
  have c2: "0 \<le> cos (radians plat)" using plat by (intro cos_radians_nonneg)
  have gap: "\<bar>plat - lat\<bar> \<le> 180" using lat plat by linarith
  have "3959 * \<bar>radians (plat - lat)\<bar> \<le> r"
    using distance_at_least_meridian[of lat plat lng plon] c1 c2 gap d by simp
  then have "\<bar>plat - lat\<bar> * (3959 * pi) \<le> r * 180"
    unfolding abs_radians by (simp add: field_simps)
  moreover have "\<bar>plat - lat\<bar> * (69 * 180) \<le> \<bar>plat - lat\<bar> * (3959 * pi)"
    using pi_gt_314 by (intro mult_left_mono) simp_all
  ultimately have north: "\<bar>plat - lat\<bar> \<le> r / 69" by simp
  then have "\<bar>plat - lat\<bar> \<le> 25 / 69" using r by simp
  then have plat': "\<bar>plat\<bar> \<le> 369 / 10" using lat by linarith
  have k1: "8028 / 10000 \<le> cos (radians lat)"
  proof -
    have "(8028 / 10000 :: real) \<le> 1 - (365 / 10 * 7 / 400)^2 / 2 + (365 / 10 * 7 / 400)^4 / 24
        - (365 / 10 * 7 / 400)^6 / 720 + (365 / 10 * 7 / 400)^8 / 40320
        - (365 / 10 * 7 / 400)^10 / 3628800"
      by (simp add: power_divide)
    then show ?thesis using cos_radians_lower[OF lat] by simp
  qed
  have k2: "7986 / 10000 \<le> cos (radians plat)"
  proof -
    have "(7986 / 10000 :: real) \<le> 1 - (369 / 10 * 7 / 400)^2 / 2 + (369 / 10 * 7 / 400)^4 / 24
        - (369 / 10 * 7 / 400)^6 / 720 + (369 / 10 * 7 / 400)^8 / 40320
        - (369 / 10 * 7 / 400)^10 / 3628800"
      by (simp add: power_divide)
    then show ?thesis using cos_radians_lower[OF plat'] by simp
  qed
  have kk: "(8028 / 10000) * (7986 / 10000) \<le> cos (radians lat) * cos (radians plat)"
    using k1 k2 by (intro mult_mono) simp_all
  obtain h where h: "haversine_distance lat lng plat plon = 7918 * h" "0 \<le> h" "h \<le> pi / 2"
    "(sin h)\<^sup>2 = haversine_a (radians lat) (radians plat) (radians plat - radians lat) (radians (plon - lng))"
    by (rule haversine_half_angle)
  let ?x = "radians (plon - lng) / 2"
  have hr: "h \<le> r / 7918" using d unfolding h(1) by simp
  then have hrho: "h \<le> 25 / 7918" using r by simp
  have "(8028 / 10000) * (7986 / 10000) * (sin ?x)\<^sup>2 \<le> cos (radians lat) * cos (radians plat) * (sin ?x)\<^sup>2"
    using kk by (intro mult_right_mono) simp_all
  also have "\<dots> \<le> (sin h)\<^sup>2"
    unfolding h(4) haversine_a_def by simp
  finally have le: "(8028 / 10000) * (7986 / 10000) * (sin ?x)\<^sup>2 \<le> (sin h)\<^sup>2" .
  have xabs: "\<bar>?x\<bar> = \<bar>plon - lng\<bar> * pi / 360" by (simp add: abs_radians)
  have "\<bar>?x\<bar> = \<bar>plon - lng\<bar> * pi / 360" by (rule xabs)
  also have "\<dots> \<le> 180 * pi / 360"
    using plon by (intro divide_right_mono mult_right_mono) simp_all
  finally have x: "\<bar>?x\<bar> \<le> pi / 2" by simp
  have "\<bar>?x\<bar> \<le> (12556 / 10000) * h"
    by (rule longitude_gap_small[OF le h(2) hrho x]) (simp_all add: power2_eq_square)
  then have "\<bar>plon - lng\<bar> * pi \<le> 360 * (12556 / 10000) * h"
    unfolding xabs by (simp add: field_simps)
  also have "\<dots> \<le> 360 * (12556 / 10000) * (r / 7918)"
    using hr by (intro mult_left_mono) simp_all
  finally have A: "\<bar>plon - lng\<bar> * pi \<le> r * (360 * (12556 / 10000) / 7918)"
    by simp
  have "360 * (12556 / 10000) / 7918 \<le> pi / 55"
    using pi_gt_314 by simp
  then have "r * (360 * (12556 / 10000) / 7918) \<le> r * (pi / 55)"
    using r0 by (intro mult_left_mono)
  also have "r * (pi / 55) = (r / 55) * pi" by simp
  finally have B: "r * (360 * (12556 / 10000) / 7918) \<le> (r / 55) * pi" .
  have "\<bar>plon - lng\<bar> * pi \<le> (r / 55) * pi" by (rule order_trans[OF A B])
  then have "\<bar>plon - lng\<bar> \<le> r / 55"
    using pi_gt_zero by (simp only: mult_le_cancel_right_pos)
  then show ?thesis using north by simp
qed

section \<open>Results on the geocoder\<close>

subsection \<open>What each step changes\<close>

lemma same_store_refl: "same_store w w"
  by (simp add: same_store_def)

lemma same_store_trans: "same_store w w1 \<Longrightarrow> same_store w1 w2 \<Longrightarrow> same_store w w2"
  by (simp add: same_store_def)

lemma sleep_frame: "same_store w (sleep n w) \<and> calls (sleep n w) = calls w"
  by (simp add: same_store_def sleep_def)

lemma geolocator_geocode_frame:
  "geolocator_geocode env q w = (res, w') \<Longrightarrow> same_store w w' \<and> calls w' = calls w + 1"
  by (auto simp: geolocator_geocode_def same_store_def)

lemma random_uniform_frame:
  "random_uniform env a b w = (x, w') \<Longrightarrow> same_store w w' \<and> calls w' = calls w"
  by (auto simp: random_uniform_def same_store_def)

lemma random_uniform_range:
  assumes "unit_random env" "random_uniform env (- d) d w = (x, w')" "0 \<le> d"
  shows "\<bar>x\<bar> \<le> d"
proof -
  let ?u = "random_unit env (draws w)"
  have u: "0 \<le> ?u" "?u \<le> 1" using assms(1) by (simp_all add: unit_random_def)
  have x: "x = - d + (d - - d) * ?u" using assms(2) by (auto simp: random_uniform_def)
  have "0 \<le> d * ?u" using u assms(3) by simp
  moreover have "d * ?u \<le> d * 1" using u assms(3) by (intro mult_left_mono)
  ultimately show ?thesis unfolding x by (simp add: abs_le_iff algebra_simps)
qed

lemma dict_set_lookup: "map_of (dict_set k v d) k = Some v"
  by (induction d) auto

text \<open>Storing an entry: it raises when the directory cannot be made, and only then.\<close>

lemma cache_store_blocked: "disk_dir w = DirBlocked \<Longrightarrow> cache_store cache addr c w = Inl OSError"
  by (simp add: cache_store_def save_geocode_cache_def Let_def)

lemma cache_store_result:
  assumes "disk_dir w \<noteq> DirBlocked"
  shows "\<exists>w'. cache_store cache addr c w = Inr w' \<and>
              mem_cache w' = Some (dict_set addr (pair c) cache) \<and>
              calls w' = calls w \<and> disk_dir w' = DirPresent"
  using assms
  by (cases "disk_access w") (simp_all add: cache_store_def save_geocode_cache_def Let_def)

lemma cache_store_returned:
  assumes "cache_store cache addr c w = Inr w'"
  shows "mem_cache w' = Some (dict_set addr (pair c) cache) \<and> calls w' = calls w \<and>
         disk_dir w \<noteq> DirBlocked \<and> disk_dir w' = DirPresent"
proof (cases "disk_dir w = DirBlocked")
  case True
  then show ?thesis using assms cache_store_blocked[OF True] by simp
next
  case False
  then show ?thesis using assms cache_store_result[OF False, of cache addr c] by auto
qed

lemma fallback_attempt1_result:
  assumes "fallback_attempt1 env cfg addr w = (res, w')"
  shows "same_store w w' \<and> calls w' = calls w + 1 \<and>
         (\<forall>c. res = Some c \<longrightarrow> validate_coordinates cfg (fst c) (snd c))"
proof -
  obtain loc w1
    where g: "geolocator_geocode env (extract_street_name addr @ '', Asheville, NC'') w = (loc, w1)"
    by (cases "geolocator_geocode env (extract_street_name addr @ '', Asheville, NC'') w")
  have f: "same_store w w1" "calls w1 = calls w + 1"
    using geolocator_geocode_frame[OF g] by simp_all
  have s: "same_store w (sleep n w1)" "calls (sleep n w1) = calls w + 1" for n
    using f sleep_frame[of w1 n] by (auto intro: same_store_trans)
  show ?thesis
    using assms s unfolding fallback_attempt1_def Let_def g
    by (cases loc) (auto split: if_splits)
qed

lemma fallback_attempt2_result:
  assumes "fallback_attempt2 env cfg addr w = (res, w')"
  shows "same_store w w' \<and> calls w' \<le> calls w + 1 \<and>
         (\<forall>c. res = Some c \<longrightarrow> validate_coordinates cfg (fst c) (snd c))"
proof (cases "zip_search addr")
  case None
  then show ?thesis
    using assms by (auto simp: fallback_attempt2_def same_store_refl)
next
  case (Some z)
  obtain loc w1 where g: "geolocator_geocode env (z @ '', NC'') w = (loc, w1)"
    by (cases "geolocator_geocode env (z @ '', NC'') w")
  have f: "same_store w w1" "calls w1 = calls w + 1"
    using geolocator_geocode_frame[OF g] by simp_all
  have s: "same_store w (sleep n w1)" "calls (sleep n w1) = calls w + 1" for n
    using f sleep_frame[of w1 n] by (auto intro: same_store_trans)
  show ?thesis
  proof (cases loc)
    case (Location la lo)
    obtain dx w2 where r1: "random_uniform env (- 0.01) 0.01 w1 = (dx, w2)"
      by (cases "random_uniform env (- 0.01) 0.01 w1")
    obtain dy w3 where r2: "random_uniform env (- 0.01) 0.01 w2 = (dy, w3)"
      by (cases "random_uniform env (- 0.01) 0.01 w2")
    have "same_store w w3" "calls w3 = calls w + 1"
      using f random_uniform_frame[OF r1] random_uniform_frame[OF r2]
      by (auto intro: same_store_trans)
    then have s3: "same_store w (sleep n w3)" "calls (sleep n w3) = calls w + 1" for n
      using sleep_frame[of w3 n] by (auto intro: same_store_trans)
    show ?thesis
      using assms s3 r1 r2 unfolding fallback_attempt2_def Some option.case g Location
      by (auto simp: Let_def split: if_splits)
  next
    case NoLocation
    then show ?thesis
      using assms s unfolding fallback_attempt2_def Some option.case g by auto
  next
    case GeocoderTimedOut
    then show ?thesis
      using assms s unfolding fallback_attempt2_def Some option.case g by auto
  next
    case GeocoderServiceError
    then show ?thesis
      using assms s unfolding fallback_attempt2_def Some option.case g by auto
  qed
qed

lemma fallback_attempt3_result:
  assumes "fallback_attempt3 env cfg w = (res, w')"
  shows "same_store w w' \<and> calls w' = calls w \<and>
         (\<exists>c. res = Some c \<and> (unit_random env \<longrightarrow> near_center cfg c))"
proof -
  obtain dx w1 where r1: "random_uniform env (- 0.05) 0.05 w = (dx, w1)"
    by (cases "random_uniform env (- 0.05) 0.05 w")
  obtain dy w2 where r2: "random_uniform env (- 0.05) 0.05 w1 = (dy, w2)"
    by (cases "random_uniform env (- 0.05) 0.05 w1")
  have fr: "same_store w w2" "calls w2 = calls w"
    using random_uniform_frame[OF r1] random_uniform_frame[OF r2]
    by (auto intro: same_store_trans)
  have res: "res = Some (CITY_CENTER_lat cfg + dx, CITY_CENTER_lon cfg + dy)" "w' = w2"
    using assms r1 r2 by (auto simp: fallback_attempt3_def)
  have "near_center cfg (CITY_CENTER_lat cfg + dx, CITY_CENTER_lon cfg + dy)" if "unit_random env"
    using random_uniform_range[OF that r1] random_uniform_range[OF that r2]
    by (simp add: near_center_def)
  then show ?thesis using fr res by simp
qed

lemma fallback_geocode_result:
  assumes "fallback_geocode env cfg addr w = (res, w')"
  shows "same_store w w' \<and> calls w' \<le> calls w + 2 \<and>
         (\<exists>c. res = Some c \<and>
              (validate_coordinates cfg (fst c) (snd c) \<or> (unit_random env \<longrightarrow> near_center cfg c)))"
proof -
  obtain r1 w1 where a1: "fallback_attempt1 env cfg addr w = (r1, w1)"
    by (cases "fallback_attempt1 env cfg addr w")
  note f1 = fallback_attempt1_result[OF a1]
  show ?thesis
  proof (cases r1)
    case (Some c)
    then have "res = Some c" "w' = w1"
      using assms a1 by (auto simp: fallback_geocode_def)
    then show ?thesis
      using f1 Some by auto
  next
    case n1: None
    obtain r2 w2 where a2: "fallback_attempt2 env cfg addr w1 = (r2, w2)"
      by (cases "fallback_attempt2 env cfg addr w1")
    note f2 = fallback_attempt2_result[OF a2]
    show ?thesis
    proof (cases r2)
      case (Some c)
      then have "res = Some c" "w' = w2"
        using assms a1 n1 a2 by (auto simp: fallback_geocode_def)
      then show ?thesis
        using f1 f2 Some by (auto intro: same_store_trans)
    next
      case n2: None
      have a3: "fallback_attempt3 env cfg w2 = (res, w')"
        using assms a1 n1 a2 n2 by (simp add: fallback_geocode_def)
      note f3 = fallback_attempt3_result[OF a3]
      have "same_store w w'"
        using f1 f2 f3 by (blast intro: same_store_trans)
      moreover have "calls w' \<le> calls w + 2" using f1 f2 f3 by linarith
      ultimately show ?thesis using f3 by blast
    qed
  qed
qed

lemma primary_attempts_result:
  "primary_attempts env cfg cache addr attempt w = Inr (res, w') \<Longrightarrow>
     calls w' \<le> calls w + (3 - attempt) \<and>
     (case res of
        None \<Rightarrow> same_store w w'
      | Some c \<Rightarrow> validate_coordinates cfg (fst c) (snd c) \<and>
                  mem_cache w' = Some (dict_set addr (pair c) cache) \<and>
                  disk_dir w' = DirPresent)"
proof (induction env cfg cache addr attempt w arbitrary: res w' rule: primary_attempts.induct)
  case (1 env cfg cache addr attempt w)
  show ?case
  proof (cases "3 \<le> attempt")
    case True
    then show ?thesis
      using "1.prems" by (simp add: primary_attempts.simps same_store_refl)
  next
    case False
    obtain loc w1 where g: "geolocator_geocode env (addr @ '', Asheville, NC'') w = (loc, w1)"
      by (cases "geolocator_geocode env (addr @ '', Asheville, NC'') w")
    have f: "same_store w w1" "calls w1 = calls w + 1"
      using geolocator_geocode_frame[OF g] by simp_all
    have s: "same_store w (sleep n w1)" "calls (sleep n w1) = calls w + 1" for n
      using f sleep_frame[of w1 n] by (auto intro: same_store_trans)
    have eq: "primary_attempts env cfg cache addr attempt w =
        (case loc of
           Location la lo \<Rightarrow>
             if validate_coordinates cfg la lo
             then (case cache_store cache addr (la, lo) w1 of
                     Inl e \<Rightarrow> Inl e
                   | Inr w2 \<Rightarrow> Inr (Some (la, lo), sleep 1 w2))
             else Inr (None, sleep 1 w1)
         | NoLocation \<Rightarrow> Inr (None, sleep 1 w1)
         | GeocoderTimedOut \<Rightarrow>
             if attempt < 2 then primary_attempts env cfg cache addr (attempt + 1) (sleep 2 w1)
             else Inr (None, w1)
         | GeocoderServiceError \<Rightarrow> Inr (None, sleep 2 w1))"
      using False by (subst primary_attempts.simps) (simp add: g)
    show ?thesis
    proof (cases loc)
      case (Location la lo)
      show ?thesis
      proof (cases "validate_coordinates cfg la lo")
        case True
        obtain w2 where st: "cache_store cache addr (la, lo) w1 = Inr w2"
          using "1.prems" True unfolding eq Location by (cases "cache_store cache addr (la, lo) w1") auto
        have r: "res = Some (la, lo)" "w' = sleep 1 w2"
          using "1.prems" True st unfolding eq Location by simp_all
        have "mem_cache (sleep 1 w2) = Some (dict_set addr (pair (la, lo)) cache)"
          "calls (sleep 1 w2) = calls w + 1" "disk_dir (sleep 1 w2) = DirPresent"
          using cache_store_returned[OF st] f by (simp_all add: sleep_def)
        then show ?thesis using True r False by auto
      next
        case nv: False
        then show ?thesis
          using "1.prems" False s unfolding eq Location by auto
      qed
    next
      case NoLocation
      then show ?thesis using "1.prems" False s unfolding eq by auto
    next
      case GeocoderServiceError
      then show ?thesis using "1.prems" False s unfolding eq by auto
    next
      case GeocoderTimedOut
      show ?thesis
      proof (cases "attempt < 2")
        case True
        have rec: "primary_attempts env cfg cache addr (attempt + 1) (sleep 2 w1) = Inr (res, w')"
          using "1.prems" True unfolding eq GeocoderTimedOut by simp
        have s2: "same_store w (sleep 2 w1)" "calls (sleep 2 w1) = calls w + 1"
          using s[of 2] by simp_all
        have ih: "calls w' \<le> calls (sleep 2 w1) + (3 - (attempt + 1)) \<and>
          (case res of
             None \<Rightarrow> same_store (sleep 2 w1) w'
           | Some c \<Rightarrow> validate_coordinates cfg (fst c) (snd c) \<and>
                  mem_cache w' = Some (dict_set addr (pair c) cache) \<and>
                  disk_dir w' = DirPresent)"
          using "1.IH"[OF False g[symmetric] GeocoderTimedOut True rec] .
        show ?thesis
          using ih s2 True
          by (cases res) (auto intro: same_store_trans)
      next
        case nf: False
        then show ?thesis
          using "1.prems" False f unfolding eq GeocoderTimedOut by auto
      qed
    qed
  qed
qed

lemma primary_attempts_returns:
  "disk_dir w \<noteq> DirBlocked \<Longrightarrow>
     \<exists>res w'. primary_attempts env cfg cache addr attempt w = Inr (res, w')"
proof (induction env cfg cache addr attempt w rule: primary_attempts.induct)
  case (1 env cfg cache addr attempt w)
  show ?case
  proof (cases "3 \<le> attempt")
    case True
    then show ?thesis by (simp add: primary_attempts.simps)
  next
    case False
    obtain loc w1 where g: "geolocator_geocode env (addr @ '', Asheville, NC'') w = (loc, w1)"
      by (cases "geolocator_geocode env (addr @ '', Asheville, NC'') w")
    have d: "disk_dir w1 \<noteq> DirBlocked" "disk_dir (sleep 2 w1) \<noteq> DirBlocked"
      using geolocator_geocode_frame[OF g] "1.prems" by (simp_all add: same_store_def sleep_def)
    have eq: "primary_attempts env cfg cache addr attempt w =
        (case loc of
           Location la lo \<Rightarrow>
             if validate_coordinates cfg la lo
             then (case cache_store cache addr (la, lo) w1 of
                     Inl e \<Rightarrow> Inl e
                   | Inr w2 \<Rightarrow> Inr (Some (la, lo), sleep 1 w2))
             else Inr (None, sleep 1 w1)
         | NoLocation \<Rightarrow> Inr (None, sleep 1 w1)
         | GeocoderTimedOut \<Rightarrow>
             if attempt < 2 then primary_attempts env cfg cache addr (attempt + 1) (sleep 2 w1)
             else Inr (None, w1)
         | GeocoderServiceError \<Rightarrow> Inr (None, sleep 2 w1))"
      using False by (subst primary_attempts.simps) (simp add: g)
    show ?thesis
    proof (cases loc)
      case (Location la lo)
      obtain w2 where "cache_store cache addr (la, lo) w1 = Inr w2"
        using cache_store_result[OF d(1), of cache addr "(la, lo)"] by blast
      then show ?thesis unfolding eq Location by simp
    next
      case NoLocation
      then show ?thesis unfolding eq by simp
    next
      case GeocoderServiceError
      then show ?thesis unfolding eq by simp
    next
      case GeocoderTimedOut
      show ?thesis
      proof (cases "attempt < 2")
        case True
        then show ?thesis
          using "1.IH"[OF False g[symmetric] GeocoderTimedOut True d(2)]
          unfolding eq GeocoderTimedOut by simp
      next
        case nf: False
        then show ?thesis unfolding eq GeocoderTimedOut by simp
      qed
    qed
  qed
qed

subsection \<open>Loading the cache\<close>

lemma comprehension_returns:
  "list_all (\<lambda>kv. iterable (snd kv)) items \<Longrightarrow> \<exists>d. dict_comprehension items = Inr d"
proof (induction items)
  case Nil
  then show ?case by simp
next
  case (Cons kv items)
  then obtain d where "dict_comprehension items = Inr d" by auto
  moreover have "\<exists>t. tuple_of (snd kv) = Inr t"
    using Cons.prems by (cases "snd kv") (simp_all add: iterable_def tuple_of_def)
  ultimately show ?case by auto
qed

lemma comprehension_raises:
  "\<not> list_all (\<lambda>kv. iterable (snd kv)) items \<Longrightarrow> dict_comprehension items = Inl TypeError"
proof (induction items)
  case Nil
  then show ?case by simp
next
  case (Cons kv items)
  show ?case
  proof (cases "iterable (snd kv)")
    case True
    then obtain t where t: "tuple_of (snd kv) = Inr t"
      by (cases "snd kv") (simp_all add: iterable_def tuple_of_def)
    have "dict_comprehension items = Inl TypeError" using Cons True by simp
    then show ?thesis using t by simp
  next
    case False
    then have "tuple_of (snd kv) = Inl TypeError"
      by (cases "snd kv") (simp_all add: iterable_def tuple_of_def)
    then show ?thesis by simp
  qed
qed

lemma comprehension_plausible:
  "list_all (\<lambda>kv. case snd kv of JArr t \<Rightarrow> plausible_tuple cfg t | _ \<Rightarrow> False) items \<Longrightarrow>
     dict_comprehension items = Inr d \<Longrightarrow> plausible_dict cfg d"
proof (induction items arbitrary: d)
  case Nil
  then show ?case by (simp add: plausible_dict_def)
next
  case (Cons kv items)
  obtain t where t: "snd kv = JArr t" "plausible_tuple cfg t"
    using Cons.prems(1) by (cases "snd kv") simp_all
  obtain d' where d': "dict_comprehension items = Inr d'" "d = (fst kv, t) # d'"
    using Cons.prems(2) t(1) by (auto simp: tuple_of_def split: sum.splits)
  have "plausible_dict cfg d'" using Cons.IH[OF _ d'(1)] Cons.prems(1) by simp
  then show ?case using t(2) d'(2) by (simp add: plausible_dict_def)
qed

lemma load_geocode_cache_loaded:
  "mem_cache w = Some m \<Longrightarrow> load_geocode_cache w = Inr (m, w)"
  by (simp add: load_geocode_cache_def)

lemma load_geocode_cache_returns:
  assumes "cache_loads w"
  shows "\<exists>cache w0. load_geocode_cache w = Inr (cache, w0)"
proof (cases "mem_cache w")
  case (Some m)
  then show ?thesis by (simp add: load_geocode_cache_loaded)
next
  case None
  then have f: "file_loads (disk_cache w)" using assms by (simp add: cache_loads_def)
  show ?thesis
  proof (cases "disk_cache w")
    case (Json data)
    then obtain items where i: "data = JObj items" "list_all (\<lambda>kv. iterable (snd kv)) items"
      using f by (cases data) (simp_all add: file_loads_def)
    obtain d where "dict_comprehension items = Inr d"
      using comprehension_returns[OF i(2)] by blast
    then show ?thesis using None Json i(1) by (simp add: load_geocode_cache_def)
  qed (use None f in \<open>simp_all add: load_geocode_cache_def file_loads_def\<close>)
qed

lemma load_geocode_cache_raises:
  assumes "\<not> cache_loads w"
  shows "\<exists>e. load_geocode_cache w = Inl e"
proof -
  have n: "mem_cache w = None" and f: "\<not> file_loads (disk_cache w)"
    using assms by (simp_all add: cache_loads_def)
  show ?thesis
  proof (cases "disk_cache w")
    case (Json data)
    show ?thesis
    proof (cases data)
      case (JObj items)
      then have "\<not> list_all (\<lambda>kv. iterable (snd kv)) items"
        using f Json by (simp add: file_loads_def)
      then show ?thesis
        using comprehension_raises n Json JObj by (simp add: load_geocode_cache_def)
    qed (use n Json in \<open>simp_all add: load_geocode_cache_def\<close>)
  qed (use n f in \<open>simp_all add: load_geocode_cache_def file_loads_def\<close>)
qed

lemma load_geocode_cache_result:
  assumes "load_geocode_cache w = Inr (cache, w0)"
  shows "mem_cache w0 = Some cache \<and> disk_dir w0 = disk_dir w \<and> calls w0 = calls w \<and>
         (cache_plausible cfg w \<longrightarrow> plausible_dict cfg cache)"
proof (cases "mem_cache w")
  case (Some m)
  then show ?thesis
    using assms by (auto simp: load_geocode_cache_def cache_plausible_def)
next
  case None
  show ?thesis
  proof (cases "disk_cache w")
    case (Json data)
    show ?thesis
    proof (cases data)
      case (JObj items)
      then obtain d where d: "dict_comprehension items = Inr d" "cache = d" "w0 = w\<lparr>mem_cache := Some d\<rparr>"
        using assms None Json by (auto simp: load_geocode_cache_def split: sum.splits)
      have "plausible_dict cfg d" if "cache_plausible cfg w"
        using that None Json JObj comprehension_plausible[OF _ d(1), of cfg]
        by (simp add: cache_plausible_def plausible_file_def)
      then show ?thesis using d by simp
    qed (use assms None Json in \<open>simp_all add: load_geocode_cache_def\<close>)
  qed (use assms None in \<open>auto simp: load_geocode_cache_def plausible_dict_def\<close>)
qed

subsection \<open>Plausible coordinates\<close>

lemma near_center_valid:
  assumes "5 \<le> RADIUS_MILES cfg" "near_center cfg c"
  shows "validate_coordinates cfg (fst c) (snd c)"
proof -
  let ?dx = "fst c - CITY_CENTER_lat cfg" and ?dy = "snd c - CITY_CENTER_lon cfg"
  have "haversine_distance (CITY_CENTER_lat cfg) (CITY_CENTER_lon cfg)
          (CITY_CENTER_lat cfg + ?dx) (CITY_CENTER_lon cfg + ?dy) \<le> 5"
    using assms(2) unfolding near_center_def by (intro jitter_within_five_miles) simp_all
  then show ?thesis using assms(1) by (simp add: validate_coordinates_def)
qed

lemma plausible_pair: "plausible_tuple cfg (pair c) = validate_coordinates cfg (fst c) (snd c)"
  by (simp add: plausible_tuple_def pair_def)

lemma plausible_tuple_pair:
  assumes "plausible_tuple cfg t"
  shows "\<exists>la lo. t = pair (la, lo) \<and> validate_coordinates cfg la lo"
  using assms
  by (auto simp: plausible_tuple_def pair_def split: list.splits json.splits)

lemma plausible_lookup:
  assumes "plausible_dict cfg d" "map_of d k = Some t"
  shows "plausible_tuple cfg t"
proof -
  have "(k, t) \<in> set d" by (rule map_of_SomeD[OF assms(2)])
  then have "plausible_tuple cfg (snd (k, t))"
    using assms(1) unfolding plausible_dict_def list_all_iff by blast
  then show ?thesis by simp
qed

subsection \<open>One call\<close>

lemma geocode_address_unfold:
  assumes "load_geocode_cache w = Inr (cache, w0)"
  shows "geocode_address env cfg a w =
     (case map_of cache (title (strip a)) of
        Some t \<Rightarrow> Inr (Some t, w0)
      | None \<Rightarrow>
          (case primary_attempts env cfg cache (title (strip a)) 0 w0 of
             Inl e \<Rightarrow> Inl e
           | Inr (Some c, w1) \<Rightarrow> Inr (Some (pair c), w1)
           | Inr (None, w1) \<Rightarrow>
               (case fallback_geocode env cfg (title (strip a)) w1 of
                  (Some c, w2) \<Rightarrow>
                    (case cache_store cache (title (strip a)) c w2 of
                       Inl e \<Rightarrow> Inl e
                     | Inr w3 \<Rightarrow> Inr (Some (pair c), w3))
                | (None, w2) \<Rightarrow> Inr (None, w2))))"
  unfolding geocode_address_def Let_def assms by (simp only: sum.case prod.case)

text \<open>What a call that returns has returned and left behind.\<close>

lemma geocode_address_result:
  assumes run: "geocode_address env cfg a w = Inr (r, w')"
  shows "\<exists>m t. r = Some t \<and> mem_cache w' = Some m \<and> map_of m (title (strip a)) = Some t \<and>
           calls w' \<le> calls w + 5 \<and>
           (5 \<le> RADIUS_MILES cfg \<and> unit_random env \<and> cache_plausible cfg w \<longrightarrow>
              plausible_tuple cfg t)"
proof -
  let ?addr = "title (strip a)"
  obtain cache w0 where l: "load_geocode_cache w = Inr (cache, w0)"
    using run by (cases "load_geocode_cache w") (auto simp: geocode_address_def)
  note u = geocode_address_unfold[OF l, of env cfg a]
  have l0: "mem_cache w0 = Some cache" "calls w0 = calls w"
    using load_geocode_cache_result[OF l, of cfg] by simp_all
  have lp: "plausible_dict cfg cache" if "cache_plausible cfg w"
    using load_geocode_cache_result[OF l, of cfg] that by simp
  show ?thesis
  proof (cases "map_of cache ?addr")
    case (Some t)
    have "geocode_address env cfg a w = Inr (Some t, w0)"
      by (simp only: u Some option.case)
    then have R: "r = Some t" and W: "w' = w0" using run by simp_all
    have M: "mem_cache w' = Some cache" unfolding W by (rule l0(1))
    have C: "calls w' \<le> calls w + 5" unfolding W l0(2) by simp
    have V: "plausible_tuple cfg t" if "cache_plausible cfg w"
      by (rule plausible_lookup[OF lp[OF that] Some])
    show ?thesis using R M Some C V by blast
  next
    case miss: None
    obtain r1 w1 where p: "primary_attempts env cfg cache ?addr 0 w0 = Inr (r1, w1)"
      using run unfolding u miss
      by (cases "primary_attempts env cfg cache ?addr 0 w0") auto
    note p0 = primary_attempts_result[OF p]
    have pc: "calls w1 \<le> calls w + 3" using p0 l0(2) by simp
    show ?thesis
    proof (cases r1)
      case (Some c)
      have "geocode_address env cfg a w = Inr (Some (pair c), w1)"
        by (simp only: u miss p Some option.case prod.case sum.case)
      then have R: "r = Some (pair c)" and W: "w' = w1" using run by simp_all
      have V: "plausible_tuple cfg (pair c)"
        and M: "mem_cache w' = Some (dict_set ?addr (pair c) cache)"
        using p0 unfolding Some W by (simp_all add: plausible_pair)
      have K: "map_of (dict_set ?addr (pair c) cache) ?addr = Some (pair c)"
        by (rule dict_set_lookup)
      have C: "calls w' \<le> calls w + 5" unfolding W using pc by simp
      show ?thesis using R M K C V by blast
    next
      case none: None
      obtain r2 w2 where f: "fallback_geocode env cfg ?addr w1 = (r2, w2)"
        by (cases "fallback_geocode env cfg ?addr w1")
      note f0 = fallback_geocode_result[OF f]
      obtain c where c: "r2 = Some c"
        and cv: "validate_coordinates cfg (fst c) (snd c) \<or> (unit_random env \<longrightarrow> near_center cfg c)"
        using f0 by blast
      have u': "geocode_address env cfg a w =
          (case cache_store cache ?addr c w2 of Inl e \<Rightarrow> Inl e | Inr w3 \<Rightarrow> Inr (Some (pair c), w3))"
        by (simp only: u miss p none f c option.case prod.case sum.case)
      obtain w3 where st: "cache_store cache ?addr c w2 = Inr w3"
        using run unfolding u' by (cases "cache_store cache ?addr c w2") auto
      have R: "r = Some (pair c)" and W: "w' = w3" using run unfolding u' st by simp_all
      note cs = cache_store_returned[OF st]
      have M: "mem_cache w' = Some (dict_set ?addr (pair c) cache)" unfolding W using cs by blast
      have K: "map_of (dict_set ?addr (pair c) cache) ?addr = Some (pair c)"
        by (rule dict_set_lookup)
      have fc: "calls w2 \<le> calls w1 + 2" using f0 by blast
      have "calls w' = calls w2" unfolding W using cs by blast
      then have C: "calls w' \<le> calls w + 5" using fc pc by linarith
      have V: "plausible_tuple cfg (pair c)" if "5 \<le> RADIUS_MILES cfg" "unit_random env"
        using cv that near_center_valid[of cfg c] unfolding plausible_pair by blast
      show ?thesis using R M K C V by blast
    qed
  qed
qed

text \<open>When the store is ready the call returns; when the cache cannot be loaded it raises.\<close>

lemma geocode_address_returns:
  assumes "store_ready w"
  shows "\<exists>r w'. geocode_address env cfg a w = Inr (r, w')"
proof -
  let ?addr = "title (strip a)"
  obtain cache w0 where l: "load_geocode_cache w = Inr (cache, w0)"
    using load_geocode_cache_returns assms unfolding store_ready_def by blast
  note u = geocode_address_unfold[OF l, of env cfg a]
  have d0: "disk_dir w0 \<noteq> DirBlocked"
    using load_geocode_cache_result[OF l, of cfg] assms by (simp add: store_ready_def)
  show ?thesis
  proof (cases "map_of cache ?addr")
    case (Some t)
    then show ?thesis by (simp only: u option.case) blast
  next
    case miss: None
    obtain r1 w1 where p: "primary_attempts env cfg cache ?addr 0 w0 = Inr (r1, w1)"
      using primary_attempts_returns[OF d0] by blast
    show ?thesis
    proof (cases r1)
      case (Some c)
      show ?thesis
        by (simp only: u miss p Some option.case prod.case sum.case) blast
    next
      case none: None
      have s1: "same_store w0 w1" using primary_attempts_result[OF p] none by simp
      obtain r2 w2 where f: "fallback_geocode env cfg ?addr w1 = (r2, w2)"
        by (cases "fallback_geocode env cfg ?addr w1")
      obtain c where c: "r2 = Some c" and s2: "same_store w1 w2"
        using fallback_geocode_result[OF f] by blast
      have "disk_dir w2 \<noteq> DirBlocked" using d0 s1 s2 by (simp add: same_store_def)
      then obtain w3 where st: "cache_store cache ?addr c w2 = Inr w3"
        using cache_store_result[of w2 cache ?addr c] by blast
      show ?thesis
        by (simp only: u miss p none f c st option.case prod.case sum.case) blast
    qed
  qed
qed

lemma geocode_address_load_error:
  assumes "\<not> cache_loads w"
  shows "\<exists>e. geocode_address env cfg a w = Inl e"
proof -
  obtain e where "load_geocode_cache w = Inl e"
    using load_geocode_cache_raises[OF assms] by blast
  then show ?thesis by (simp add: geocode_address_def)
qed

subsection \<open>An address nobody knows\<close>

lemma normalize_xyzzy: "title (strip ''xyzzy'') = ''Xyzzy''"
  by code_simp

lemma normalize_XYZZY: "title (strip ''  XYZZY '') = ''Xyzzy''"
  by code_simp

lemma street_xyzzy: "extract_street_name ''Xyzzy'' = ''Xyzzy''"
  by code_simp

lemma zip_xyzzy: "zip_search ''Xyzzy'' = None"
  by code_simp

text \<open>
  The service knows nothing: the full address and the street name are asked for, there is
  no postal code, and the last resort moves the centre by the two numbers drawn.
\<close>

lemma first_lookup_xyzzy:
  "geocode_address silent_service cfg ''xyzzy'' fresh_world =
     Inr (Some (pair (CITY_CENTER_lat cfg + 4 / 100, CITY_CENTER_lon cfg)),
      \<lparr> mem_cache = Some [(''Xyzzy'', pair (CITY_CENTER_lat cfg + 4 / 100, CITY_CENTER_lon cfg))],
        disk_cache = Json (JObj [(''Xyzzy'', JArr (pair (CITY_CENTER_lat cfg + 4 / 100, CITY_CENTER_lon cfg)))]),
        disk_dir = DirPresent, disk_access = Writable, calls = 2, draws = 2, slept = 2 \<rparr>)"
  unfolding geocode_address_def normalize_xyzzy Let_def
  by (simp add: load_geocode_cache_def fresh_world_def primary_attempts.simps geolocator_geocode_def
      silent_service_def sleep_def fallback_geocode_def fallback_attempt1_def fallback_attempt2_def
      fallback_attempt3_def street_xyzzy zip_xyzzy random_uniform_def cache_store_def
      save_geocode_cache_def Let_def numeral_2_eq_2)

lemma first_lookup_sample:
  "geocode_address silent_service sample_config ''xyzzy'' fresh_world =
     Inr (Some (pair (35.6351, - 82.5515)), xyzzy_world)"
  by (simp add: first_lookup_xyzzy sample_config_def xyzzy_world_def)

lemma first_lookup_tight:
  "geocode_address silent_service tight_radius ''xyzzy'' fresh_world =
     Inr (Some (pair (35.6351, - 82.5515)), xyzzy_world)"
  by (simp add: first_lookup_xyzzy tight_radius_def sample_config_def xyzzy_world_def)

lemma cached_lookup:
  assumes "mem_cache w = Some m" "map_of m (title (strip a)) = Some t"
  shows "geocode_address env cfg a w = Inr (Some t, w)"
  by (simp only: geocode_address_unfold[OF load_geocode_cache_loaded[OF assms(1)]] assms(2) option.case)

lemma fresh_world_ready: "store_ready fresh_world"
  by (simp add: store_ready_def cache_loads_def file_loads_def fresh_world_def)

text \<open>
  The same lookup raises when the directory of the cache file cannot be made, and any
  lookup raises when the file holds a JSON value that is not an object, an object with a
  member that cannot be iterated, or bytes that are not UTF-8.
\<close>

lemma blocked_directory_raises:
  "geocode_address silent_service cfg ''xyzzy'' (fresh_world\<lparr>disk_dir := DirBlocked\<rparr>) = Inl OSError"
  unfolding geocode_address_def normalize_xyzzy Let_def
  by (simp add: load_geocode_cache_def fresh_world_def primary_attempts.simps geolocator_geocode_def
      silent_service_def sleep_def fallback_geocode_def fallback_attempt1_def fallback_attempt2_def
      fallback_attempt3_def street_xyzzy zip_xyzzy random_uniform_def cache_store_def
      save_geocode_cache_def Let_def numeral_2_eq_2)

lemma array_file_raises:
  "geocode_address env cfg a (fresh_world\<lparr>disk_cache := Json (JArr [])\<rparr>) = Inl AttributeError"
  by (simp add: geocode_address_def load_geocode_cache_def fresh_world_def)

lemma number_member_raises:
  "geocode_address env cfg a (fresh_world\<lparr>disk_cache := Json (JObj [(''Xyzzy'', JNum 1)])\<rparr>) = Inl TypeError"
  by (simp add: geocode_address_def load_geocode_cache_def fresh_world_def tuple_of_def)

lemma not_utf8_raises:
  "geocode_address env cfg a (fresh_world\<lparr>disk_cache := NotUtf8\<rparr>) = Inl UnicodeDecodeError"
  by (simp add: geocode_address_def load_geocode_cache_def fresh_world_def)

subsection \<open>Two lookups of one address\<close>

text \<open>
  C6, as stated, allows one call to the geocoding service over the two lookups.  For an
  address the service does not know, the first lookup alone sends two: the full address,
  then the street name of the first fallback.  The second lookup sends none.
\<close>

theorem one_outbound_call_counterexample:
  "geocode_address silent_service sample_config ''xyzzy'' fresh_world =
     Inr (Some (pair (35.6351, - 82.5515)), xyzzy_world) \<and>
   geocode_address silent_service sample_config ''xyzzy'' xyzzy_world =
     Inr (Some (pair (35.6351, - 82.5515)), xyzzy_world) \<and>
   calls xyzzy_world - calls fresh_world = 2"
proof -
  have m: "mem_cache xyzzy_world = Some [(''Xyzzy'', pair (35.6351, - 82.5515))]"
    by (simp add: xyzzy_world_def)
  have k: "map_of [(''Xyzzy'', pair (35.6351, - 82.5515))] (title (strip ''xyzzy'')) =
             Some (pair (35.6351, - 82.5515))"
    by (simp add: normalize_xyzzy)
  have "calls xyzzy_world - calls fresh_world = 2"
    by (simp add: xyzzy_world_def fresh_world_def)
  then show ?thesis
    using first_lookup_sample cached_lookup[OF m k] by simp
qed

text \<open>
  C6, amended.  A lookup returns whenever the cache can be loaded and the directory of the
  cache file is there or can be made.  A lookup that returns has returned a value, not
  \<open>None\<close>, and has sent at most five calls to the geocoding service (three attempts with
  the full address, one with the street name, one with the postal code).  A second lookup
  of an address with the same normalized form (trimmed, title-cased) then returns the same
  value from the cache and leaves the state as it is, so it sends no call, whatever the
  service or the configuration is by then.
\<close>

theorem second_lookup_from_cache:
  "(store_ready w \<longrightarrow> (\<exists>r w'. geocode_address env cfg a w = Inr (r, w'))) \<and>
   (\<forall>r w'. geocode_address env cfg a w = Inr (r, w') \<and> title (strip b) = title (strip a) \<longrightarrow>
      r \<noteq> None \<and> geocode_address env2 cfg2 b w' = Inr (r, w') \<and> calls w' \<le> calls w + 5)"
proof -
  have 1: "\<exists>r w'. geocode_address env cfg a w = Inr (r, w')" if "store_ready w"
    by (rule geocode_address_returns[OF that])
  have 2: "r \<noteq> None \<and> geocode_address env2 cfg2 b w' = Inr (r, w') \<and> calls w' \<le> calls w + 5"
    if run: "geocode_address env cfg a w = Inr (r, w')" and same: "title (strip b) = title (strip a)"
    for r w'
  proof -
    obtain m t where f: "r = Some t" "mem_cache w' = Some m" "map_of m (title (strip a)) = Some t"
      "calls w' \<le> calls w + 5"
      using geocode_address_result[OF run] by blast
    have "map_of m (title (strip b)) = Some t" unfolding same by (rule f(3))
    then have "geocode_address env2 cfg2 b w' = Inr (Some t, w')"
      by (rule cached_lookup[OF f(2)])
    then show ?thesis using f(1,4) by simp
  qed
  show ?thesis using 1 2 by blast
qed

theorem second_lookup_from_cache_witness:
  "store_ready fresh_world \<and>
   title (strip ''  XYZZY '') = title (strip ''xyzzy'') \<and>
   geocode_address silent_service sample_config ''xyzzy'' fresh_world =
     Inr (Some (pair (35.6351, - 82.5515)), xyzzy_world) \<and>
   geocode_address silent_service sample_config ''  XYZZY '' xyzzy_world =
     Inr (Some (pair (35.6351, - 82.5515)), xyzzy_world) \<and>
   calls xyzzy_world \<le> calls fresh_world + 5"
proof -
  have t: "title (strip ''  XYZZY '') = title (strip ''xyzzy'')"
    by (simp only: normalize_xyzzy normalize_XYZZY)
  note first = first_lookup_sample
  have "geocode_address silent_service sample_config ''  XYZZY '' xyzzy_world =
          Inr (Some (pair (35.6351, - 82.5515)), xyzzy_world) \<and>
        calls xyzzy_world \<le> calls fresh_world + 5"
    using second_lookup_from_cache
      [of fresh_world silent_service sample_config "''xyzzy''" "''  XYZZY ''"
          silent_service sample_config] first t
    by blast
  then show ?thesis using fresh_world_ready t first by blast
qed

subsection \<open>The result is plausible\<close>

text \<open>
  C2, as stated, promises a coordinate within the validity radius for every configuration.
  The last resort is not checked against the radius: with a radius of two miles and a
  first random draw of 0.9 it is the centre moved north by 0.04 degrees, about 2.76 miles.
\<close>

theorem last_resort_outside_radius_counterexample:
  "geocode_address silent_service tight_radius ''xyzzy'' fresh_world =
     Inr (Some (pair (35.6351, - 82.5515)), xyzzy_world) \<and>
   \<not> validate_coordinates tight_radius 35.6351 (- 82.5515)"
proof -
  have c: "CITY_CENTER_lat tight_radius = 35.5951" "CITY_CENTER_lon tight_radius = - 82.5515"
    "RADIUS_MILES tight_radius = 2"
    by (simp_all add: tight_radius_def sample_config_def)
  have "haversine_distance 35.5951 (- 82.5515) 35.6351 (- 82.5515) = 3959 * \<bar>radians (35.6351 - 35.5951)\<bar>"
    by (rule distance_on_meridian) simp
  also have "\<dots> = 3959 * (4 / 100) * pi / 180"
    by (simp add: abs_radians)
  finally have "2 < haversine_distance 35.5951 (- 82.5515) 35.6351 (- 82.5515)"
    using pi_gt_314 by simp
  then have "\<not> validate_coordinates tight_radius 35.6351 (- 82.5515)"
    by (simp add: validate_coordinates_def c)
  then show ?thesis using first_lookup_tight by simp
qed

text \<open>
  C2, amended.  A lookup returns a value, not \<open>None\<close>, whenever the cache can be loaded and
  the directory of the cache file is there or can be made.  When moreover the validity
  radius is at least five miles, the random source returns numbers of the unit interval and
  the cache holds only pairs of numbers within the radius of the centre, the value is a
  coordinate within the radius.  The fallback chain on its own always returns a
  coordinate, and so does its last resort; each is within the radius when the radius is at
  least five miles and the random source returns numbers of the unit interval.
\<close>

theorem resolve_within_radius:
  "(store_ready w \<longrightarrow> (\<exists>t w'. geocode_address env cfg a w = Inr (Some t, w'))) \<and>
   (store_ready w \<and> 5 \<le> RADIUS_MILES cfg \<and> unit_random env \<and> cache_plausible cfg w \<longrightarrow>
      (\<exists>lat lon w'. geocode_address env cfg a w = Inr (Some (pair (lat, lon)), w') \<and>
         validate_coordinates cfg lat lon)) \<and>
   (\<exists>lat lon w'. fallback_geocode env cfg a w = (Some (lat, lon), w') \<and>
      (5 \<le> RADIUS_MILES cfg \<and> unit_random env \<longrightarrow> validate_coordinates cfg lat lon)) \<and>
   (\<exists>lat lon w'. fallback_attempt3 env cfg w = (Some (lat, lon), w') \<and>
      (5 \<le> RADIUS_MILES cfg \<and> unit_random env \<longrightarrow> validate_coordinates cfg lat lon))"
proof -
  have ret: "\<exists>t w'. geocode_address env cfg a w = Inr (Some t, w') \<and>
               (5 \<le> RADIUS_MILES cfg \<and> unit_random env \<and> cache_plausible cfg w \<longrightarrow>
                  plausible_tuple cfg t)"
    if sr: "store_ready w"
  proof -
    obtain r w' where g: "geocode_address env cfg a w = Inr (r, w')"
      using geocode_address_returns[OF sr] by blast
    obtain t where t: "r = Some t"
      and p: "5 \<le> RADIUS_MILES cfg \<and> unit_random env \<and> cache_plausible cfg w \<longrightarrow> plausible_tuple cfg t"
      using geocode_address_result[OF g] by blast
    show ?thesis using g t p by blast
  qed
  have 1: "\<exists>t w'. geocode_address env cfg a w = Inr (Some t, w')" if "store_ready w"
    using ret[OF that] by blast
  have 2: "\<exists>lat lon w'. geocode_address env cfg a w = Inr (Some (pair (lat, lon)), w') \<and>
             validate_coordinates cfg lat lon"
    if sr: "store_ready w" and h: "5 \<le> RADIUS_MILES cfg" "unit_random env" "cache_plausible cfg w"
  proof -
    obtain t w' where g: "geocode_address env cfg a w = Inr (Some t, w')" and p: "plausible_tuple cfg t"
      using ret[OF sr] h by blast
    obtain la lo where "t = pair (la, lo)" "validate_coordinates cfg la lo"
      using plausible_tuple_pair[OF p] by blast
    then show ?thesis using g by blast
  qed
  obtain r2 w2 where f: "fallback_geocode env cfg a w = (r2, w2)"
    by (cases "fallback_geocode env cfg a w")
  obtain c2 where c2: "r2 = Some c2"
    and v2: "validate_coordinates cfg (fst c2) (snd c2) \<or> (unit_random env \<longrightarrow> near_center cfg c2)"
    using fallback_geocode_result[OF f] by blast
  have "fallback_geocode env cfg a w = (Some (fst c2, snd c2), w2)"
    using f c2 by simp
  moreover have "validate_coordinates cfg (fst c2) (snd c2)" if "5 \<le> RADIUS_MILES cfg" "unit_random env"
    using v2 that near_center_valid[of cfg c2] by blast
  ultimately have 3: "\<exists>lat lon w'. fallback_geocode env cfg a w = (Some (lat, lon), w') \<and>
      (5 \<le> RADIUS_MILES cfg \<and> unit_random env \<longrightarrow> validate_coordinates cfg lat lon)"
    by blast
  obtain r3 w3 where l: "fallback_attempt3 env cfg w = (r3, w3)"
    by (cases "fallback_attempt3 env cfg w")
  obtain c3 where c3: "r3 = Some c3" and v3: "unit_random env \<longrightarrow> near_center cfg c3"
    using fallback_attempt3_result[OF l] by blast
  have "fallback_attempt3 env cfg w = (Some (fst c3, snd c3), w3)"
    using l c3 by simp
  moreover have "validate_coordinates cfg (fst c3) (snd c3)" if "5 \<le> RADIUS_MILES cfg" "unit_random env"
    using v3 that near_center_valid[of cfg c3] by blast
  ultimately have 4: "\<exists>lat lon w'. fallback_attempt3 env cfg w = (Some (lat, lon), w') \<and>
      (5 \<le> RADIUS_MILES cfg \<and> unit_random env \<longrightarrow> validate_coordinates cfg lat lon)"
    by blast
  show ?thesis using 1 2 3 4 by blast
qed

theorem resolve_within_radius_witness:
  "store_ready fresh_world \<and> 5 \<le> RADIUS_MILES sample_config \<and> unit_random silent_service \<and>
   cache_plausible sample_config fresh_world \<and>
   geocode_address silent_service sample_config ''xyzzy'' fresh_world =
     Inr (Some (pair (35.6351, - 82.5515)), xyzzy_world) \<and>
   validate_coordinates sample_config 35.6351 (- 82.5515)"
proof -
  have h: "5 \<le> RADIUS_MILES sample_config" "unit_random silent_service"
    "cache_plausible sample_config fresh_world"
    by (simp_all add: sample_config_def unit_random_def silent_service_def cache_plausible_def
        plausible_file_def fresh_world_def)
  note first = first_lookup_sample
  obtain lat lon w' where g: "geocode_address silent_service sample_config ''xyzzy'' fresh_world =
        Inr (Some (pair (lat, lon)), w')"
    and v: "validate_coordinates sample_config lat lon"
    using resolve_within_radius[of fresh_world silent_service sample_config "''xyzzy''"]
      fresh_world_ready h by blast
  have "pair (lat, lon) = pair (35.6351, - 82.5515)"
    using g first by simp
  then have e: "lat = 35.6351" "lon = - 82.5515"
    by (simp_all add: pair_def)
  have "validate_coordinates sample_config 35.6351 (- 82.5515)"
    using v unfolding e .
  then show ?thesis using fresh_world_ready h first by blast
qed

section \<open>Results on the zone analyzer\<close>

lemma cos_radians_60: "cos (radians 60) = 1 / 2"
proof -
  have "radians 60 = pi / 3" by (simp add: radians_def)
  then show ?thesis by (simp only: cos_60)
qed

lemma northern_distance: "haversine_distance 60 (- 150) 60 (- 149.98) \<le> 1"
proof -
  obtain h where h: "haversine_distance 60 (- 150) 60 (- 149.98) = 7918 * h" "0 \<le> h" "h \<le> pi / 2"
    "(sin h)\<^sup>2 = haversine_a (radians 60) (radians 60) (radians 60 - radians 60)
                     (radians (- 149.98 - - 150))"
    by (rule haversine_half_angle)
  let ?x = "radians (2 / 100) / 2"
  have g: "(- 149.98 - - 150 :: real) = 2 / 100" by simp
  have a: "(sin h)\<^sup>2 = (1 / 2) * (1 / 2) * (sin ?x)\<^sup>2"
    unfolding h(4) g haversine_a_def cos_radians_60 by simp
  have "\<bar>?x\<bar> = (2 / 100) * pi / 360" by (simp add: radians_def)
  also have "\<dots> \<le> (2 / 100) * (315 / 100) / 360"
    using pi_lt_315 by (intro divide_right_mono mult_left_mono) simp_all
  finally have x: "\<bar>?x\<bar> \<le> 7 / 40000" by simp
  have "(sin ?x)\<^sup>2 \<le> ?x\<^sup>2" by (rule sin_squared_le)
  also have "\<dots> = \<bar>?x\<bar>\<^sup>2" by (simp only: power2_abs)
  also have "\<dots> \<le> (7 / 40000)\<^sup>2" using x by (intro power_mono) simp_all
  finally have "(sin h)\<^sup>2 \<le> (1 / 2) * (1 / 2) * (7 / 40000)\<^sup>2"
    unfolding a by (intro mult_left_mono) simp_all
  also have "\<dots> \<le> (1 / 7918 - (1 / 7918) ^ 3 / 6)\<^sup>2"
    by (simp add: power2_eq_square power3_eq_cube)
  finally have "h \<le> 1 / 7918"
    by (intro half_angle_small[OF h(2,3)]) simp_all
  then show ?thesis unfolding h(1) by simp
qed

text \<open>
  C7, as stated, holds for every centre.  At latitude 60 a degree of longitude is about 34.5
  miles, not 55: a house 0.02 degrees east of the centre is 0.69 miles away, within a
  radius of one mile, and outside the rectangle, whose half width is 1/55 degrees.
\<close>

theorem bounding_box_counterexample:
  "analyze_nearby_zones_nearby northern_db 60 (- 150) 1 = [] \<and>
   haversine_only northern_db 60 (- 150) 1 = [northern_house]"
proof -
  have p: "properties northern_db = [northern_house]"
    "latitude northern_house = Some 60" "longitude northern_house = Some (- 149.98)"
    "price_per_sqft northern_house = Some 300" "archived northern_house = False"
    by (simp_all add: northern_db_def northern_house_def sample_house_def)
  have "\<not> between (longitude northern_house) (- 150 - 1 / 55) (- 150 + 1 / 55)"
    unfolding p between_def by simp
  then have 1: "analyze_nearby_zones_nearby northern_db 60 (- 150) 1 = []"
    by (simp add: analyze_nearby_zones_nearby_def bounding_box_query_def p(1))
  have "calculate_distance 60 (- 150) 60 (- 149.98) \<le> 1"
    unfolding calculate_distance_eq by (rule northern_distance)
  then have 2: "haversine_only northern_db 60 (- 150) 1 = [northern_house]"
    unfolding haversine_only_def p(1) by (simp add: p(2-5))
  show ?thesis using 1 2 by simp
qed

text \<open>
  C7, amended.  For a centre at most 36.5 degrees from the equator, a radius of at most 25
  miles, and stored coordinates with a latitude between -90 and 90 and a longitude at
  most 180 degrees from that of the centre, the rectangle excludes no row within the
  radius: the query with the rectangle returns the same list as the distance check alone.
\<close>

theorem bounding_box_conservative:
  assumes lat: "\<bar>lat\<bar> \<le> 365 / 10"
    and r: "radius_miles \<le> 25"
    and range: "coordinates_in_range db lng"
  shows "analyze_nearby_zones_nearby db lat lng radius_miles = haversine_only db lat lng radius_miles"
proof -
  have "(between (latitude p) (lat - radius_miles / 69) (lat + radius_miles / 69) \<and>
         between (longitude p) (lng - radius_miles / 55) (lng + radius_miles / 55) \<and>
         price_per_sqft p \<noteq> None \<and> archived p = False) \<and>
        calculate_distance lat lng (the (latitude p)) (the (longitude p)) \<le> radius_miles
        \<longleftrightarrow>
        latitude p \<noteq> None \<and> longitude p \<noteq> None \<and> price_per_sqft p \<noteq> None \<and> archived p = False \<and>
        calculate_distance lat lng (the (latitude p)) (the (longitude p)) \<le> radius_miles"
    (is "?box \<and> ?near \<longleftrightarrow> ?rhs")
    if p: "p \<in> set (properties db)" for p
  proof (cases "latitude p")
    case None
    then show ?thesis by (simp add: between_def)
  next
    case x: (Some x)
    show ?thesis
    proof (cases "longitude p")
      case None
      then show ?thesis by (simp add: between_def)
    next
      case y: (Some y)
      have v: "\<bar>x\<bar> \<le> 90" "\<bar>y - lng\<bar> \<le> 180"
        using range p x y unfolding coordinates_in_range_def list_all_iff by force+
      have "lat - radius_miles / 69 \<le> x \<and> x \<le> lat + radius_miles / 69 \<and>
            lng - radius_miles / 55 \<le> y \<and> y \<le> lng + radius_miles / 55"
        if d: "calculate_distance lat lng x y \<le> radius_miles"
      proof -
        have "\<bar>x - lat\<bar> \<le> radius_miles / 69" "\<bar>y - lng\<bar> \<le> radius_miles / 55"
          using within_radius_in_box[OF lat r v d[unfolded calculate_distance_eq]] by blast+
        then show ?thesis by linarith
      qed
      then show ?thesis
        unfolding x y between_def by auto
    qed
  qed
  then show ?thesis
    unfolding analyze_nearby_zones_nearby_def bounding_box_query_def haversine_only_def Let_def
      filter_filter
    by (intro filter_cong refl)
qed

theorem bounding_box_conservative_witness:
  "\<bar>35.6 :: real\<bar> \<le> 365 / 10 \<and> (1 :: real) \<le> 25 \<and> coordinates_in_range sample_db (- 82.55) \<and>
   analyze_nearby_zones_nearby sample_db 35.6 (- 82.55) 1 = haversine_only sample_db 35.6 (- 82.55) 1"
proof -
  have h: "\<bar>35.6 :: real\<bar> \<le> 365 / 10" "(1 :: real) \<le> 25" "coordinates_in_range sample_db (- 82.55)"
    by (simp_all add: coordinates_in_range_def sample_db_def sample_house_def)
  show ?thesis
    using bounding_box_conservative[OF h] h by (simp only: simp_thms)
qed

end
